theory Spec2Isabelle
  imports Complex_Main "HOL-Library.AList"
begin

section \<open>Data model of the store backend (src/index.ts)\<close>

text \<open>
  The enums of the source become datatypes. A \<^verbatim>\<open>Date\<close> is its time value in
  milliseconds, a natural number. An optional property (\<^verbatim>\<open>rating?: number\<close>) is an
  \<open>option\<close>, \<open>None\<close> standing for the absent property.
\<close>

datatype ProductCategory = Electronics | Books | HomeAppliances | Clothing | Food | Sports

datatype OrderStatus = Pending | Processing | Shipped | Delivered | Cancelled

datatype UserRole = Customer | Admin | Seller

datatype PaymentMethod = CreditCard | PayPal | BankTransfer | CashOnDelivery

datatype PaymentStatus = Paid | Unpaid

datatype TransactionStatus = Success | Failed | Refunded

section \<open>Numbers\<close>

text \<open>
  A JavaScript \<^verbatim>\<open>number\<close> is an IEEE 754 double: a finite double, given by its exact
  rational value, one of the two infinities, or \<^verbatim>\<open>NaN\<close>. The two zeros are the one value
  \<open>Fin 0\<close>: the program compares numbers with \<^verbatim>\<open><\<close>, \<^verbatim>\<open><=\<close>, \<^verbatim>\<open>>\<close> and \<^verbatim>\<open>!==\<close>, which do
  not tell the zeros apart, and its only divisor is the length of an array.
\<close>

datatype number = Fin rat | PosInf | NegInf | NaN

text \<open>The number of binary digits of a positive integer, and the powers of two.\<close>

function bitlen :: "int \<Rightarrow> int" where
  "bitlen k = (if k \<le> 0 then 0 else 1 + bitlen (k div 2))"
  by pat_completeness auto
termination
  by (relation "measure nat") auto

declare bitlen.simps [simp del]

definition pow2 :: "int \<Rightarrow> rat" where
  "pow2 k = (if 0 \<le> k then 2 ^ nat k else 1 / 2 ^ nat (- k))"

text \<open>
  The binary exponent of a positive rational \<open>a\<close>: the integer \<open>e\<close> with
  \<open>2^e \<le> a < 2^(e+1)\<close>. For \<open>a = p/q\<close> it is the difference of the numbers of digits of
  \<open>p\<close> and \<open>q\<close>, or one less.
\<close>

definition exponent :: "rat \<Rightarrow> int" where
  "exponent a =
     (let (p, q) = quotient_of a;
          d = bitlen p - bitlen q
      in if pow2 d \<le> a then d else d - 1)"

text \<open>The nearest integer, the even one of two.\<close>

definition round_half_even :: "rat \<Rightarrow> int" where
  "round_half_even r =
     (let f = \<lfloor>r\<rfloor>; d = r - of_int f
      in if d < 1 / 2 then f else if 1 / 2 < d then f + 1 else if even f then f else f + 1)"

text \<open>
  Rounding of a real result to a double, to the nearest and to the even significand of two:
  the result is a multiple of \<open>2^(e-52)\<close>, where \<open>e\<close> is the exponent of the argument
  and at least \<open>-1022\<close> (below that the doubles are subnormal and equally spaced), and it
  is infinite when the rounded magnitude reaches \<open>2^1024\<close>.
\<close>

definition round64 :: "rat \<Rightarrow> number" where
  "round64 x =
     (if x = 0 then Fin 0
      else
        (let a = \<bar>x\<bar>;
             e = max (exponent a) (- 1022);
             ulp = pow2 (e - 52);
             n = round_half_even (a / ulp)
         in if 1023 < e \<or> (e = 1023 \<and> 2 ^ 53 \<le> n)
            then (if x < 0 then NegInf else PosInf)
            else Fin ((if x < 0 then - 1 else 1) * of_int n * ulp)))"

text \<open>
  The arithmetic operators \<^verbatim>\<open>+\<close>, \<^verbatim>\<open>-\<close>, \<^verbatim>\<open>*\<close> and \<^verbatim>\<open>/\<close>: the exact result, rounded. A
  finite divisor zero is the positive zero.
\<close>

fun num_neg :: "number \<Rightarrow> number" where
  "num_neg (Fin a) = Fin (- a)"
| "num_neg PosInf = NegInf"
| "num_neg NegInf = PosInf"
| "num_neg NaN = NaN"

fun num_add :: "number \<Rightarrow> number \<Rightarrow> number" where
  "num_add NaN y = NaN"
| "num_add x NaN = NaN"
| "num_add (Fin a) (Fin b) = round64 (a + b)"
| "num_add PosInf NegInf = NaN"
| "num_add NegInf PosInf = NaN"
| "num_add PosInf y = PosInf"
| "num_add NegInf y = NegInf"
| "num_add (Fin a) y = y"

definition num_sub :: "number \<Rightarrow> number \<Rightarrow> number" where
  "num_sub x y = num_add x (num_neg y)"

fun num_mul :: "number \<Rightarrow> number \<Rightarrow> number" where
  "num_mul NaN y = NaN"
| "num_mul x NaN = NaN"
| "num_mul (Fin a) (Fin b) = round64 (a * b)"
| "num_mul (Fin a) PosInf = (if a = 0 then NaN else if 0 < a then PosInf else NegInf)"
| "num_mul (Fin a) NegInf = (if a = 0 then NaN else if 0 < a then NegInf else PosInf)"
| "num_mul PosInf (Fin b) = (if b = 0 then NaN else if 0 < b then PosInf else NegInf)"
| "num_mul NegInf (Fin b) = (if b = 0 then NaN else if 0 < b then NegInf else PosInf)"
| "num_mul PosInf PosInf = PosInf"
| "num_mul NegInf NegInf = PosInf"
| "num_mul PosInf NegInf = NegInf"
| "num_mul NegInf PosInf = NegInf"

fun num_div :: "number \<Rightarrow> number \<Rightarrow> number" where
  "num_div NaN y = NaN"
| "num_div x NaN = NaN"
| "num_div (Fin a) (Fin b) =
     (if b = 0 then (if a = 0 then NaN else if 0 < a then PosInf else NegInf)
      else round64 (a / b))"
| "num_div (Fin a) y = Fin 0"
| "num_div PosInf (Fin b) = (if 0 \<le> b then PosInf else NegInf)"
| "num_div NegInf (Fin b) = (if 0 \<le> b then NegInf else PosInf)"
| "num_div x y = NaN"

text \<open>
  The comparisons \<^verbatim>\<open><\<close>, \<^verbatim>\<open><=\<close>, \<^verbatim>\<open>>\<close>, \<^verbatim>\<open>===\<close> and \<^verbatim>\<open>!==\<close>: every comparison with \<^verbatim>\<open>NaN\<close> is false
  but \<^verbatim>\<open>!==\<close>, which is true.
\<close>

fun num_less :: "number \<Rightarrow> number \<Rightarrow> bool" where
  "num_less NaN y = False"
| "num_less x NaN = False"
| "num_less (Fin a) (Fin b) = (a < b)"
| "num_less x NegInf = False"
| "num_less NegInf y = True"
| "num_less PosInf y = False"
| "num_less (Fin a) PosInf = True"

fun num_le :: "number \<Rightarrow> number \<Rightarrow> bool" where
  "num_le NaN y = False"
| "num_le x NaN = False"
| "num_le (Fin a) (Fin b) = (a \<le> b)"
| "num_le NegInf y = True"
| "num_le x PosInf = True"
| "num_le x y = False"

definition num_gt :: "number \<Rightarrow> number \<Rightarrow> bool" where
  "num_gt x y = num_less y x"

definition strict_eq :: "number \<Rightarrow> number \<Rightarrow> bool" where
  "strict_eq x y = (x \<noteq> NaN \<and> y \<noteq> NaN \<and> x = y)"

definition strict_neq :: "number \<Rightarrow> number \<Rightarrow> bool" where
  "strict_neq x y = (\<not> strict_eq x y)"

text \<open>The length of an array as a number: an integer below \<open>2^32\<close>, which is a double.\<close>

definition number_of_nat :: "nat \<Rightarrow> number" where
  "number_of_nat n = Fin (of_nat n)"

text \<open>
  \<^verbatim>\<open>x.toFixed(f)\<close> and \<^verbatim>\<open>parseFloat\<close>. The string that \<^verbatim>\<open>toFixed\<close> returns is either a
  decimal numeral, given by its exact value, or, for a number that is not finite or is at
  least \<open>10^21\<close> in magnitude, the string of the number itself, which \<^verbatim>\<open>parseFloat\<close> reads
  back as that number. For the decimal numeral \<^verbatim>\<open>toFixed\<close> takes the integer \<open>n\<close> for which
  \<open>n / 10^f\<close> is nearest to the magnitude of \<open>x\<close>, the larger one of two, and keeps the
  sign. \<^verbatim>\<open>parseFloat\<close> rounds the value of a decimal numeral to a double.
\<close>

datatype number_text = Decimal rat | Text_of number

definition toFixed :: "nat \<Rightarrow> number \<Rightarrow> number_text" where
  "toFixed f x =
     (case x of
        Fin r \<Rightarrow>
          if 10 ^ 21 \<le> \<bar>r\<bar> then Text_of x
          else if r < 0 then Decimal (- (of_int \<lfloor>- r * 10 ^ f + 1 / 2\<rfloor> / 10 ^ f))
          else Decimal (of_int \<lfloor>r * 10 ^ f + 1 / 2\<rfloor> / 10 ^ f)
      | _ \<Rightarrow> Text_of x)"

fun parseFloat :: "number_text \<Rightarrow> number" where
  "parseFloat (Decimal d) = round64 d"
| "parseFloat (Text_of x) = x"

section \<open>Results, entities and update objects\<close>

text \<open>
  The \<^verbatim>\<open>error\<close> strings of the result envelope, one constructor per message of the
  source; a message that interpolates values carries them as arguments.
\<close>

datatype error =
    UsernameExists
  | UserNotFound
  | InvalidCredentials
  | PriceStockNotPositive
  | ProductNotFound
  | DeleteFailed
  | ProductIdNotFound string
  | NotEnoughStock string number number
  | OrderNotFound
  | InvalidOrderOrPaid
  | PaymentFailed
  | RatingOutOfRange
  | ProductNotFoundForReview

text \<open>\<^verbatim>\<open>ApiResponse<T>\<close>: every property but \<^verbatim>\<open>success\<close> is optional.\<close>

record 'a ApiResponse =
  success :: bool
  data :: "'a option"
  message :: "string option"
  error :: "error option"

text \<open>
  The objects passed as \<^verbatim>\<open>Partial<Omit<T, 'id' | 'createdAt'>>\<close> to the update operations
  of the services. A field is \<open>None\<close> when the property is not given. For a property that
  is itself optional in \<^verbatim>\<open>T\<close> the given value is an \<open>option\<close> again. The property
  \<^verbatim>\<open>updatedAt\<close> may be given too, and \<^verbatim>\<open>InMemoryDatabase.update\<close> overwrites it.
\<close>

record Address =
  street :: string
  city :: string
  state :: string
  zipCode :: string
  country :: string

record ProductUpdates =
  name :: "string option"
  description :: "string option"
  price :: "number option"
  category :: "ProductCategory option"
  stock :: "number option"
  imageUrl :: "string option"
  sellerId :: "string option"
  rating :: "number option option"
  reviewsCount :: "number option option"
  updatedAt :: "nat option"

record UserUpdates =
  username :: "string option"
  email :: "string option"
  role :: "UserRole option"
  address :: "Address option option"
  phone :: "string option option"
  updatedAt :: "nat option"

text \<open>
  \<^verbatim>\<open>BaseEntity\<close> and the interfaces that extend it. The field \<^verbatim>\<open>id\<close> is written
  \<open>id'\<close>. A value of type \<^verbatim>\<open>New<T>\<close> is modelled as a \<^verbatim>\<open>T\<close> whose three base fields
  are ignored: \<^verbatim>\<open>InMemoryDatabase.add\<close> overwrites them.

  \<open>passwordHash\<close> is an \<open>option\<close> because \<^verbatim>\<open>getUserProfile\<close> and \<^verbatim>\<open>updateUserProfile\<close>
  return, cast to \<^verbatim>\<open>User\<close>, an object from which the property has been removed.
\<close>

record BaseEntity =
  id' :: string
  createdAt :: nat
  updatedAt :: nat

record Product = BaseEntity +
  name :: string
  description :: string
  price :: number
  category :: ProductCategory
  stock :: number
  imageUrl :: string
  sellerId :: string
  rating :: "number option"
  reviewsCount :: "number option"

record User = BaseEntity +
  username :: string
  email :: string
  passwordHash :: "string option"
  role :: UserRole
  address :: "Address option"
  phone :: "string option"

record OrderItem =
  productId :: string
  productName :: string
  quantity :: number
  priceAtOrder :: number

text \<open>The elements of the \<^verbatim>\<open>items\<close> argument of \<^verbatim>\<open>createOrder\<close>.\<close>

record LineItem =
  productId :: string
  quantity :: number

record Order = BaseEntity +
  userId :: string
  items :: "OrderItem list"
  totalAmount :: number
  status :: OrderStatus
  shippingAddress :: Address
  paymentMethod :: PaymentMethod
  paymentStatus :: PaymentStatus
  shippedDate :: "nat option"
  deliveredDate :: "nat option"

record Review = BaseEntity +
  productId :: string
  userId :: string
  rating :: number
  comment :: string

record PaymentTransaction = BaseEntity +
  orderId :: string
  userId :: string
  amount :: number
  "method" :: PaymentMethod
  transactionId :: string
  status :: TransactionStatus

section \<open>The environment: clock and random numbers\<close>

text \<open>
  \<^verbatim>\<open>Date.now()\<close>, \<^verbatim>\<open>new Date()\<close> and \<^verbatim>\<open>Math.random()\<close> read the outside world. The
  environment holds every reading the program will ever get: \<open>clock e k\<close> is the value of
  the \<open>k\<close>-th reading of the clock and \<open>rng e k\<close> the \<open>k\<close>-th random number, and the
  counters say how many readings were taken. A random number comes with its rendering
  \<^verbatim>\<open>toString(36)\<close>, which the model does not compute.
\<close>

record RandomDraw =
  rvalue :: number
  base36 :: string

record Env =
  clock :: "nat \<Rightarrow> nat"
  ticks :: nat
  rng :: "nat \<Rightarrow> RandomDraw"
  draws :: nat

definition Date_now :: "Env \<Rightarrow> nat \<times> Env" where
  "Date_now e = (clock e (ticks e), e\<lparr>ticks := Suc (ticks e)\<rparr>)"

definition Math_random :: "Env \<Rightarrow> RandomDraw \<times> Env" where
  "Math_random e = (rng e (draws e), e\<lparr>draws := Suc (draws e)\<rparr>)"

text \<open>\<^verbatim>\<open>s.substring(a, b)\<close> for \<open>a \<le> b\<close>: the characters at the indices from \<open>a\<close> up to \<open>b - 1\<close>.\<close>

definition substring :: "nat \<Rightarrow> nat \<Rightarrow> string \<Rightarrow> string" where
  "substring a b s = take (b - a) (drop a s)"

text \<open>The decimal rendering of a natural number in a template literal.\<close>

definition digit_char :: "nat \<Rightarrow> char" where
  "digit_char d = char_of (48 + d)"

function show_nat :: "nat \<Rightarrow> string" where
  "show_nat n = (if n < 10 then [digit_char n] else show_nat (n div 10) @ [digit_char (n mod 10)])"
  by pat_completeness auto
termination
  by (relation "measure (\<lambda>n. n)") auto

declare show_nat.simps [simp del]

section \<open>The entity repository: class InMemoryDatabase\<close>

text \<open>
  The \<^verbatim>\<open>Map<string, T>\<close> of the class is an association list in insertion order.
  \<^verbatim>\<open>Map.set\<close> is \<open>AList.update\<close>: it replaces the value of a key that is present, where
  the key stands, and appends a new key at the end. \<^verbatim>\<open>Map.get\<close> is \<open>map_of\<close>.
\<close>

type_synonym 'a db = "(string \<times> 'a) list"

text \<open>
  \<^verbatim>\<open>add\<close> (lines 177-184). The template literal reads the clock and then the random
  number; \<^verbatim>\<open>new Date()\<close> reads the clock again. Nothing looks the new id up in the
  collection before \<^verbatim>\<open>set\<close>.
\<close>

definition db_add ::
  "'a BaseEntity_scheme \<Rightarrow> Env \<Rightarrow> 'a BaseEntity_scheme db \<Rightarrow>
   'a BaseEntity_scheme \<times> Env \<times> 'a BaseEntity_scheme db" where
  "db_add item e db =
     (let (t, e1) = Date_now e;
          (r, e2) = Math_random e1;
          i = ''entity_'' @ show_nat t @ ''_'' @ substring 2 9 (base36 r);
          (now, e3) = Date_now e2;
          newItem = item\<lparr>id' := i, createdAt := now, updatedAt := now\<rparr>
      in (newItem, e3, AList.update i newItem db))"

text \<open>\<^verbatim>\<open>get\<close> (lines 186-190): \<open>None\<close> is \<^verbatim>\<open>undefined\<close>.\<close>

definition db_get :: "string \<Rightarrow> 'a db \<Rightarrow> 'a option" where
  "db_get i db = map_of db i"

text \<open>\<^verbatim>\<open>getAll\<close> (lines 192-196).\<close>

definition db_getAll :: "'a db \<Rightarrow> 'a list" where
  "db_getAll db = map snd db"

text \<open>
  \<^verbatim>\<open>update\<close> (lines 198-208). The argument \<open>updates\<close> is the effect of spreading the
  given object over the existing record; \<^verbatim>\<open>updatedAt\<close> is set after it.
\<close>

definition db_update ::
  "string \<Rightarrow> ('a BaseEntity_scheme \<Rightarrow> 'a BaseEntity_scheme) \<Rightarrow> Env \<Rightarrow> 'a BaseEntity_scheme db \<Rightarrow>
   'a BaseEntity_scheme option \<times> Env \<times> 'a BaseEntity_scheme db" where
  "db_update i updates e db =
     (case map_of db i of
        None \<Rightarrow> (None, e, db)
      | Some existing \<Rightarrow>
          (let (now, e1) = Date_now e;
               updatedItem = (updates existing)\<lparr>updatedAt := now\<rparr>
           in (Some updatedItem, e1, AList.update i updatedItem db)))"

text \<open>\<^verbatim>\<open>delete\<close> (lines 210-214): the result says whether the key was present.\<close>

definition db_delete :: "string \<Rightarrow> 'a db \<Rightarrow> bool \<times> 'a db" where
  "db_delete i db = (map_of db i \<noteq> None, AList.delete i db)"

text \<open>\<^verbatim>\<open>findBy\<close> (lines 216-220): the property is given as its selector.\<close>

definition db_findBy :: "('a \<Rightarrow> 'k) \<Rightarrow> 'k \<Rightarrow> 'a db \<Rightarrow> 'a list" where
  "db_findBy key v db = filter (\<lambda>item. key item = v) (map snd db)"

text \<open>
  The five repositories of lines 224-228, which the services share, and the environment.
  The services are \<^verbatim>\<open>async\<close> without any \<^verbatim>\<open>await\<close> inside: a call runs to its end
  before another one starts, so a call is a function from the state before to the response
  and the state after.
\<close>

record World =
  env :: Env
  usersDb :: "User db"
  productsDb :: "Product db"
  ordersDb :: "Order db"
  reviewsDb :: "Review db"
  paymentsDb :: "PaymentTransaction db"

definition ok :: "'a \<Rightarrow> 'a ApiResponse" where
  "ok d = \<lparr>success = True, data = Some d, message = None, error = None\<rparr>"

definition fail :: "error \<Rightarrow> 'a ApiResponse" where
  "fail err = \<lparr>success = False, data = None, message = None, error = Some err\<rparr>"

section \<open>class UserService\<close>

text \<open>
  \<^verbatim>\<open>registerUser\<close> (lines 240-250). The hash is the template literal
  \<^verbatim>\<open>hashed_${userData.passwordHash}_${Date.now()}\<close>.
\<close>

definition registerUser :: "User \<Rightarrow> World \<Rightarrow> User ApiResponse \<times> World" where
  "registerUser userData w =
     (let existingUser = db_findBy username (username userData) (usersDb w)
      in if length existingUser > 0 then (fail UsernameExists, w)
         else
           (let (t, e1) = Date_now (env w);
                h = ''hashed_'' @ (case passwordHash userData of Some p \<Rightarrow> p | None \<Rightarrow> ''undefined'')
                      @ ''_'' @ show_nat t;
                (newUser, e2, db') = db_add (userData\<lparr>passwordHash := Some h\<rparr>) e1 (usersDb w)
            in (ok newUser, w\<lparr>env := e2, usersDb := db'\<rparr>)))"

text \<open>
  \<^verbatim>\<open>authenticateUser\<close> (lines 252-264): the credentials are the two properties of
  \<^verbatim>\<open>UserCredentials\<close>.
\<close>

definition authenticateUser :: "string \<Rightarrow> string \<Rightarrow> World \<Rightarrow> User ApiResponse \<times> World" where
  "authenticateUser uname pw w =
     (case db_findBy username uname (usersDb w) of
        [] \<Rightarrow> (fail UserNotFound, w)
      | user # _ \<Rightarrow>
          if passwordHash user = Some (''hashed_'' @ pw @ ''_'' @ show_nat (createdAt user))
          then (ok user, w)
          else (fail InvalidCredentials, w))"

text \<open>
  \<^verbatim>\<open>getUserProfile\<close> (lines 266-275). The destructuring
  \<^verbatim>\<open>const { passwordHash, ...safeUser } = user\<close> copies every property but the hash.
\<close>

definition getUserProfile :: "string \<Rightarrow> World \<Rightarrow> User ApiResponse \<times> World" where
  "getUserProfile uid w =
     (case db_get uid (usersDb w) of
        None \<Rightarrow> (fail UserNotFound, w)
      | Some user \<Rightarrow> (ok (user\<lparr>passwordHash := None\<rparr>), w))"

text \<open>The spread of a \<^verbatim>\<open>UserUpdates\<close> object over a user.\<close>

definition spread_UserUpdates :: "UserUpdates \<Rightarrow> User \<Rightarrow> User" where
  "spread_UserUpdates u x =
     x\<lparr>username := (case UserUpdates.username u of None \<Rightarrow> username x | Some v \<Rightarrow> v),
       email := (case UserUpdates.email u of None \<Rightarrow> email x | Some v \<Rightarrow> v),
       role := (case UserUpdates.role u of None \<Rightarrow> role x | Some v \<Rightarrow> v),
       address := (case UserUpdates.address u of None \<Rightarrow> address x | Some v \<Rightarrow> v),
       phone := (case UserUpdates.phone u of None \<Rightarrow> phone x | Some v \<Rightarrow> v),
       updatedAt := (case UserUpdates.updatedAt u of None \<Rightarrow> updatedAt x | Some v \<Rightarrow> v)\<rparr>"

text \<open>\<^verbatim>\<open>updateUserProfile\<close> (lines 277-285).\<close>

definition updateUserProfile :: "string \<Rightarrow> UserUpdates \<Rightarrow> World \<Rightarrow> User ApiResponse \<times> World" where
  "updateUserProfile uid updates w =
     (case db_update uid (spread_UserUpdates updates) (env w) (usersDb w) of
        (None, e', db') \<Rightarrow> (fail UserNotFound, w\<lparr>env := e', usersDb := db'\<rparr>)
      | (Some updatedUser, e', db') \<Rightarrow>
          (ok (updatedUser\<lparr>passwordHash := None\<rparr>), w\<lparr>env := e', usersDb := db'\<rparr>))"

section \<open>class ProductService\<close>

text \<open>\<^verbatim>\<open>addProduct\<close> (lines 298-305).\<close>

definition addProduct :: "Product \<Rightarrow> World \<Rightarrow> Product ApiResponse \<times> World" where
  "addProduct productData w =
     (if num_le (price productData) (Fin 0) \<or> num_less (stock productData) (Fin 0)
      then (fail PriceStockNotPositive, w)
      else
        (let (newProduct, e', db') = db_add productData (env w) (productsDb w)
         in (ok newProduct, w\<lparr>env := e', productsDb := db'\<rparr>)))"

text \<open>\<^verbatim>\<open>getProduct\<close> (lines 307-314).\<close>

definition getProduct :: "string \<Rightarrow> World \<Rightarrow> Product ApiResponse \<times> World" where
  "getProduct pid w =
     (case db_get pid (productsDb w) of
        None \<Rightarrow> (fail ProductNotFound, w)
      | Some product \<Rightarrow> (ok product, w))"

text \<open>\<^verbatim>\<open>getAllProducts\<close> (lines 316-323): every value of the enum is a truthy string.\<close>

definition getAllProducts :: "ProductCategory option \<Rightarrow> World \<Rightarrow> Product list ApiResponse \<times> World" where
  "getAllProducts cat w =
     (let products = db_getAll (productsDb w)
      in (ok (case cat of None \<Rightarrow> products
                | Some c \<Rightarrow> filter (\<lambda>p. category p = c) products), w))"

text \<open>The spread of a \<^verbatim>\<open>ProductUpdates\<close> object over a product.\<close>

definition spread_ProductUpdates :: "ProductUpdates \<Rightarrow> Product \<Rightarrow> Product" where
  "spread_ProductUpdates u x =
     x\<lparr>name := (case ProductUpdates.name u of None \<Rightarrow> name x | Some v \<Rightarrow> v),
       description := (case ProductUpdates.description u of None \<Rightarrow> description x | Some v \<Rightarrow> v),
       price := (case ProductUpdates.price u of None \<Rightarrow> price x | Some v \<Rightarrow> v),
       category := (case ProductUpdates.category u of None \<Rightarrow> category x | Some v \<Rightarrow> v),
       stock := (case ProductUpdates.stock u of None \<Rightarrow> stock x | Some v \<Rightarrow> v),
       imageUrl := (case ProductUpdates.imageUrl u of None \<Rightarrow> imageUrl x | Some v \<Rightarrow> v),
       sellerId := (case ProductUpdates.sellerId u of None \<Rightarrow> sellerId x | Some v \<Rightarrow> v),
       Product.rating := (case ProductUpdates.rating u of None \<Rightarrow> Product.rating x | Some v \<Rightarrow> v),
       reviewsCount := (case ProductUpdates.reviewsCount u of None \<Rightarrow> reviewsCount x | Some v \<Rightarrow> v),
       updatedAt := (case ProductUpdates.updatedAt u of None \<Rightarrow> updatedAt x | Some v \<Rightarrow> v)\<rparr>"

text \<open>\<^verbatim>\<open>updateProduct\<close> (lines 325-332): the given values are stored as they come.\<close>

definition updateProduct :: "string \<Rightarrow> ProductUpdates \<Rightarrow> World \<Rightarrow> Product ApiResponse \<times> World" where
  "updateProduct pid updates w =
     (case db_update pid (spread_ProductUpdates updates) (env w) (productsDb w) of
        (None, e', db') \<Rightarrow> (fail ProductNotFound, w\<lparr>env := e', productsDb := db'\<rparr>)
      | (Some updatedProduct, e', db') \<Rightarrow> (ok updatedProduct, w\<lparr>env := e', productsDb := db'\<rparr>))"

text \<open>\<^verbatim>\<open>deleteProduct\<close> (lines 334-345): \<^verbatim>\<open>adminId\<close> is not used.\<close>

definition deleteProduct :: "string \<Rightarrow> string \<Rightarrow> World \<Rightarrow> bool ApiResponse \<times> World" where
  "deleteProduct pid adminId w =
     (case db_get pid (productsDb w) of
        None \<Rightarrow> (fail ProductNotFound, w)
      | Some product \<Rightarrow>
          (let (removed, db') = db_delete pid (productsDb w)
           in if removed
              then ((ok True)\<lparr>message := Some ''Product deleted successfully.''\<rparr>, w\<lparr>productsDb := db'\<rparr>)
              else (fail DeleteFailed, w\<lparr>productsDb := db'\<rparr>)))"

section \<open>class OrderService\<close>

text \<open>
  The \<^verbatim>\<open>for\<close> loop of \<^verbatim>\<open>createOrder\<close> (lines 372-391) over the items that are left, with
  \<^verbatim>\<open>orderItems\<close> and \<^verbatim>\<open>totalAmount\<close> as accumulators. A \<^verbatim>\<open>return\<close> inside the loop is the
  result \<open>Inl\<close>; the repository is returned as the iterations before have left it.
\<close>

fun createOrder_loop ::
  "LineItem list \<Rightarrow> OrderItem list \<Rightarrow> number \<Rightarrow> Env \<Rightarrow> Product db \<Rightarrow>
   (error + OrderItem list \<times> number) \<times> Env \<times> Product db" where
  "createOrder_loop [] orderItems totalAmt e pdb = (Inr (orderItems, totalAmt), e, pdb)"
| "createOrder_loop (item # rest) orderItems totalAmt e pdb =
     (case db_get (LineItem.productId item) pdb of
        None \<Rightarrow> (Inl (ProductIdNotFound (LineItem.productId item)), e, pdb)
      | Some product \<Rightarrow>
          if num_less (stock product) (LineItem.quantity item)
          then (Inl (NotEnoughStock (name product) (stock product) (LineItem.quantity item)), e, pdb)
          else
            (let orderItems' = orderItems @
                   [\<lparr>OrderItem.productId = id' product, productName = name product,
                     OrderItem.quantity = LineItem.quantity item, priceAtOrder = price product\<rparr>];
                 totalAmt' = num_add totalAmt (num_mul (price product) (LineItem.quantity item));
                 (_, e', pdb') = db_update (id' product)
                    (\<lambda>p. p\<lparr>stock := num_sub (stock product) (LineItem.quantity item)\<rparr>) e pdb
             in createOrder_loop rest orderItems' totalAmt' e' pdb'))"

text \<open>\<^verbatim>\<open>createOrder\<close> (lines 362-405).\<close>

definition createOrder ::
  "string \<Rightarrow> LineItem list \<Rightarrow> Address \<Rightarrow> PaymentMethod \<Rightarrow> World \<Rightarrow> Order ApiResponse \<times> World" where
  "createOrder uid lineItems addr pm w =
     (case db_get uid (usersDb w) of
        None \<Rightarrow> (fail UserNotFound, w)
      | Some user \<Rightarrow>
          (case createOrder_loop lineItems [] (Fin 0) (env w) (productsDb w) of
             (Inl err, e', pdb') \<Rightarrow> (fail err, w\<lparr>env := e', productsDb := pdb'\<rparr>)
           | (Inr (orderItems, totalAmt), e', pdb') \<Rightarrow>
               (let newOrder = \<lparr>id' = [], createdAt = 0, updatedAt = 0,
                       Order.userId = uid, items = orderItems, totalAmount = totalAmt,
                       Order.status = Pending, shippingAddress = addr, paymentMethod = pm,
                       paymentStatus = Unpaid, shippedDate = None, deliveredDate = None\<rparr>;
                    (createdOrder, e'', odb') = db_add newOrder e' (ordersDb w)
                in (ok createdOrder, w\<lparr>env := e'', productsDb := pdb', ordersDb := odb'\<rparr>))))"

text \<open>\<^verbatim>\<open>getOrder\<close> (lines 407-414) and \<^verbatim>\<open>getUserOrders\<close> (lines 416-420).\<close>

definition getOrder :: "string \<Rightarrow> World \<Rightarrow> Order ApiResponse \<times> World" where
  "getOrder oid w =
     (case db_get oid (ordersDb w) of
        None \<Rightarrow> (fail OrderNotFound, w)
      | Some order \<Rightarrow> (ok order, w))"

definition getUserOrders :: "string \<Rightarrow> World \<Rightarrow> Order list ApiResponse \<times> World" where
  "getUserOrders uid w = (ok (db_findBy Order.userId uid (ordersDb w)), w)"

text \<open>
  The loop of the branch \<^verbatim>\<open>Cancelled\<close> (lines 435-440): every item's quantity is added to
  the stock of its product, when the product is still there.
\<close>

fun restore_stock :: "OrderItem list \<Rightarrow> Env \<Rightarrow> Product db \<Rightarrow> Env \<times> Product db" where
  "restore_stock [] e pdb = (e, pdb)"
| "restore_stock (item # rest) e pdb =
     (case db_get (OrderItem.productId item) pdb of
        None \<Rightarrow> restore_stock rest e pdb
      | Some product \<Rightarrow>
          (let (_, e', pdb') = db_update (id' product)
                 (\<lambda>p. p\<lparr>stock := num_add (stock product) (OrderItem.quantity item)\<rparr>) e pdb
           in restore_stock rest e' pdb'))"

text \<open>
  \<^verbatim>\<open>updateOrderStatus\<close> (lines 422-443). The argument \<^verbatim>\<open>{ shippedDate: new Date() }\<close> is
  evaluated before \<^verbatim>\<open>update\<close> reads the clock for \<^verbatim>\<open>updatedAt\<close>. The branch \<^verbatim>\<open>Cancelled\<close>
  does not look at the status the order had before.
\<close>

definition updateOrderStatus :: "string \<Rightarrow> OrderStatus \<Rightarrow> World \<Rightarrow> Order ApiResponse \<times> World" where
  "updateOrderStatus oid newStatus w =
     (case db_update oid (\<lambda>x. x\<lparr>Order.status := newStatus\<rparr>) (env w) (ordersDb w) of
        (None, e1, odb1) \<Rightarrow> (fail OrderNotFound, w\<lparr>env := e1, ordersDb := odb1\<rparr>)
      | (Some updatedOrder, e1, odb1) \<Rightarrow>
          (let w' =
             (if newStatus = Shipped \<and> shippedDate updatedOrder = None then
                (let (d, e2) = Date_now e1;
                     (_, e3, odb2) = db_update oid (\<lambda>x. x\<lparr>shippedDate := Some d\<rparr>) e2 odb1
                 in w\<lparr>env := e3, ordersDb := odb2\<rparr>)
              else if newStatus = Delivered \<and> deliveredDate updatedOrder = None then
                (let (d, e2) = Date_now e1;
                     (_, e3, odb2) = db_update oid (\<lambda>x. x\<lparr>deliveredDate := Some d\<rparr>) e2 odb1
                 in w\<lparr>env := e3, ordersDb := odb2\<rparr>)
              else if newStatus = Cancelled then
                (let (e2, pdb') = restore_stock (items updatedOrder) e1 (productsDb w)
                 in w\<lparr>env := e2, ordersDb := odb1, productsDb := pdb'\<rparr>)
              else w\<lparr>env := e1, ordersDb := odb1\<rparr>)
           in (\<lparr>success = True, data = db_get oid (ordersDb w'), message = None, error = None\<rparr>, w')))"

section \<open>class PaymentService\<close>

text \<open>
  \<^verbatim>\<open>processPayment\<close> (lines 458-487). The first random number gives the transaction id,
  the second one decides the outcome, and \<^verbatim>\<open>add\<close> draws a third one. The literal
  \<^verbatim>\<open>0.1\<close> is the double nearest to one tenth. On \<^verbatim>\<open>Failed\<close> the response has
  \<^verbatim>\<open>success: false\<close> and carries the recorded transaction as \<^verbatim>\<open>data\<close>.
\<close>

definition processPayment ::
  "string \<Rightarrow> string \<Rightarrow> number \<Rightarrow> PaymentMethod \<Rightarrow> World \<Rightarrow>
   PaymentTransaction ApiResponse \<times> World" where
  "processPayment oid uid amt m w =
     (if (case db_get oid (ordersDb w) of
            None \<Rightarrow> True
          | Some order \<Rightarrow>
              Order.userId order \<noteq> uid \<or> strict_neq (totalAmount order) amt \<or>
              paymentStatus order = Paid)
      then (fail InvalidOrderOrPaid, w)
      else
        (let (t, e1) = Date_now (env w);
             (r1, e2) = Math_random e1;
             txn = ''txn_'' @ show_nat t @ ''_'' @ substring 2 11 (base36 r1);
             (r2, e3) = Math_random e2;
             st = (if num_gt (rvalue r2) (round64 (1 / 10)) then Success else Failed);
             newPayment = \<lparr>id' = [], createdAt = 0, updatedAt = 0,
                 orderId = oid, PaymentTransaction.userId = uid, amount = amt, method = m,
                 transactionId = txn, PaymentTransaction.status = st\<rparr>;
             (createdPayment, e4, paydb') = db_add newPayment e3 (paymentsDb w)
         in if st = Success then
              (let (_, e5, odb') = db_update oid
                     (\<lambda>x. x\<lparr>paymentStatus := Paid, Order.status := Processing\<rparr>) e4 (ordersDb w)
               in ((ok createdPayment)\<lparr>message := Some ''Payment successful!''\<rparr>,
                   w\<lparr>env := e5, paymentsDb := paydb', ordersDb := odb'\<rparr>))
            else
              (\<lparr>success = False, data = Some createdPayment, message = None,
                error = Some PaymentFailed\<rparr>,
               w\<lparr>env := e4, paymentsDb := paydb'\<rparr>)))"

text \<open>\<^verbatim>\<open>getPaymentHistory\<close> (lines 489-493).\<close>

definition getPaymentHistory :: "string \<Rightarrow> World \<Rightarrow> PaymentTransaction list ApiResponse \<times> World" where
  "getPaymentHistory uid w = (ok (db_findBy PaymentTransaction.userId uid (paymentsDb w)), w)"

section \<open>class ReviewService\<close>

text \<open>
  \<^verbatim>\<open>submitReview\<close> (lines 508-531). The reviews of the product are looked up after the
  new one is stored, by the \<^verbatim>\<open>id\<close> of the product record. \<^verbatim>\<open>reduce\<close> adds the ratings
  from the left, starting from \<^verbatim>\<open>0\<close>.
\<close>

definition submitReview :: "Review \<Rightarrow> World \<Rightarrow> Review ApiResponse \<times> World" where
  "submitReview reviewData w =
     (if num_less (Review.rating reviewData) (Fin 1) \<or> num_gt (Review.rating reviewData) (Fin 5)
      then (fail RatingOutOfRange, w)
      else
        (case db_get (Review.productId reviewData) (productsDb w) of
           None \<Rightarrow> (fail ProductNotFoundForReview, w)
         | Some product \<Rightarrow>
             (let (newReview, e1, rdb') = db_add reviewData (env w) (reviewsDb w);
                  productReviews = db_findBy Review.productId (id' product) rdb';
                  totalRating = foldl (\<lambda>s r. num_add s (Review.rating r)) (Fin 0) productReviews;
                  newAverageRating = num_div totalRating (number_of_nat (length productReviews));
                  (_, e2, pdb') = db_update (id' product)
                     (\<lambda>p. p\<lparr>Product.rating := Some (parseFloat (toFixed 1 newAverageRating)),
                            reviewsCount := Some (number_of_nat (length productReviews))\<rparr>)
                     e1 (productsDb w)
              in (ok newReview, w\<lparr>env := e2, reviewsDb := rdb', productsDb := pdb'\<rparr>))))"

text \<open>\<^verbatim>\<open>getProductReviews\<close> (lines 533-537) and \<^verbatim>\<open>getUserReviews\<close> (lines 539-543).\<close>

definition getProductReviews :: "string \<Rightarrow> World \<Rightarrow> Review list ApiResponse \<times> World" where
  "getProductReviews pid w = (ok (db_findBy Review.productId pid (reviewsDb w)), w)"

definition getUserReviews :: "string \<Rightarrow> World \<Rightarrow> Review list ApiResponse \<times> World" where
  "getUserReviews uid w = (ok (db_findBy Review.userId uid (reviewsDb w)), w)"

section \<open>Invariant of the repositories and reachable states\<close>

text \<open>
  \<^verbatim>\<open>add\<close> stores a record under the id it has just written into it, and no update object
  of the services carries the property \<^verbatim>\<open>id\<close>, so every record is stored under its own id.
  The services rely on this when they read a record under one key and write it back under
  \<^verbatim>\<open>product.id\<close>.
\<close>

definition keys_are_ids :: "'a BaseEntity_scheme db \<Rightarrow> bool" where
  "keys_are_ids db = list_all (\<lambda>(k, r). id' r = k) db"

text \<open>
  The states that the services produce from empty repositories, for any environment and any
  arguments.
\<close>

inductive reachable :: "World \<Rightarrow> bool" where
  start: "reachable \<lparr>env = e, usersDb = [], productsDb = [], ordersDb = [], reviewsDb = [],
            paymentsDb = []\<rparr>"
| registerUser: "reachable w \<Longrightarrow> reachable (snd (registerUser userData w))"
| authenticateUser: "reachable w \<Longrightarrow> reachable (snd (authenticateUser uname pw w))"
| getUserProfile: "reachable w \<Longrightarrow> reachable (snd (getUserProfile uid w))"
| updateUserProfile: "reachable w \<Longrightarrow> reachable (snd (updateUserProfile uid uupdates w))"
| addProduct: "reachable w \<Longrightarrow> reachable (snd (addProduct productData w))"
| getProduct: "reachable w \<Longrightarrow> reachable (snd (getProduct pid w))"
| getAllProducts: "reachable w \<Longrightarrow> reachable (snd (getAllProducts cat w))"
| updateProduct: "reachable w \<Longrightarrow> reachable (snd (updateProduct pid pupdates w))"
| deleteProduct: "reachable w \<Longrightarrow> reachable (snd (deleteProduct pid adminId w))"
| createOrder: "reachable w \<Longrightarrow> reachable (snd (createOrder uid lineItems addr pm w))"
| getOrder: "reachable w \<Longrightarrow> reachable (snd (getOrder oid w))"
| getUserOrders: "reachable w \<Longrightarrow> reachable (snd (getUserOrders uid w))"
| updateOrderStatus: "reachable w \<Longrightarrow> reachable (snd (updateOrderStatus oid newStatus w))"
| processPayment: "reachable w \<Longrightarrow> reachable (snd (processPayment oid uid amt m w))"
| getPaymentHistory: "reachable w \<Longrightarrow> reachable (snd (getPaymentHistory uid w))"
| submitReview: "reachable w \<Longrightarrow> reachable (snd (submitReview reviewData w))"
| getProductReviews: "reachable w \<Longrightarrow> reachable (snd (getProductReviews pid w))"
| getUserReviews: "reachable w \<Longrightarrow> reachable (snd (getUserReviews uid w))"

section \<open>Notions of the specification\<close>

text \<open>
  The stock of a product in a state; the quantities that a list of line items asks of a
  product, in the order of the items; and a stock from which quantities have been taken one
  after the other.
\<close>

definition stock_of :: "string \<Rightarrow> World \<Rightarrow> number option" where
  "stock_of pid w = map_option stock (db_get pid (productsDb w))"

definition ordered_quantities :: "string \<Rightarrow> LineItem list \<Rightarrow> number list" where
  "ordered_quantities pid lineItems =
     map LineItem.quantity (filter (\<lambda>it. LineItem.productId it = pid) lineItems)"

definition decremented :: "number \<Rightarrow> number list \<Rightarrow> number" where
  "decremented s qs = foldl num_sub s qs"

text \<open>
  The sum of a list of numbers, added from the left starting from zero, and the subtotals
  of the items of an order: price times quantity.
\<close>

definition sum_in_order :: "number list \<Rightarrow> number" where
  "sum_in_order xs = foldl num_add (Fin 0) xs"

definition subtotals :: "OrderItem list \<Rightarrow> number list" where
  "subtotals ois = map (\<lambda>oi. num_mul (priceAtOrder oi) (OrderItem.quantity oi)) ois"


definition mean_of :: "number list \<Rightarrow> number" where
  "mean_of xs = num_div (sum_in_order xs) (number_of_nat (length xs))"


section \<open>Auxiliary notions of the proofs\<close>

text \<open>The id that \<^verbatim>\<open>add\<close> forms in an environment, and the environment it leaves.\<close>

definition new_id :: "Env \<Rightarrow> string" where
  "new_id e = ''entity_'' @ show_nat (clock e (ticks e)) @ ''_'' @ substring 2 9 (base36 (rng e (draws e)))"

definition after_add :: "Env \<Rightarrow> Env" where
  "after_add e = e\<lparr>ticks := Suc (Suc (ticks e)), draws := Suc (draws e)\<rparr>"

text \<open>
  The order item that the loop of \<^verbatim>\<open>createOrder\<close> builds from a product and a line item,
  and the order items of a whole list of line items.
\<close>

definition captured :: "Product \<Rightarrow> LineItem \<Rightarrow> OrderItem" where
  "captured p it = \<lparr>OrderItem.productId = LineItem.productId it, productName = name p,
      OrderItem.quantity = LineItem.quantity it, priceAtOrder = price p\<rparr>"

definition capture_all :: "Product db \<Rightarrow> LineItem list \<Rightarrow> OrderItem list" where
  "capture_all pdb lineItems =
     concat (map (\<lambda>it. case db_get (LineItem.productId it) pdb of
                          None \<Rightarrow> [] | Some p \<Rightarrow> [captured p it]) lineItems)"

text \<open>
  \<open>p'\<close> is \<open>p\<close> with the quantities \<open>qs\<close> taken from the stock one after the other,
  whatever \<^verbatim>\<open>updatedAt\<close> has become.
\<close>

definition stock_moved :: "number list \<Rightarrow> Product \<Rightarrow> Product \<Rightarrow> bool" where
  "stock_moved qs p p' = (p' = p\<lparr>stock := decremented (stock p) qs, updatedAt := updatedAt p'\<rparr>)"

section \<open>Example states\<close>

text \<open>
  An environment whose clock advances by one millisecond at every reading and whose random
  numbers are all \<open>1/2\<close>, written \<^verbatim>\<open>0.i\<close> in base 36; an empty store; a customer and two
  products; and the states after registering the customer and adding the products.
\<close>

definition env0 :: Env where
  "env0 = \<lparr>clock = (\<lambda>k. 1000 + k), ticks = 0,
            rng = (\<lambda>k. \<lparr>rvalue = Fin (1 / 2), base36 = ''0.i''\<rparr>), draws = 0\<rparr>"

definition world0 :: World where
  "world0 = \<lparr>env = env0, usersDb = [], productsDb = [], ordersDb = [], reviewsDb = [],
              paymentsDb = []\<rparr>"

definition alice :: User where
  "alice = \<lparr>id' = [], createdAt = 0, updatedAt = 0, username = ''alice'',
     email = ''alice@example.com'', passwordHash = Some ''secret'', role = Customer,
     address = None, phone = None\<rparr>"

definition headphones :: Product where
  "headphones = \<lparr>id' = [], createdAt = 0, updatedAt = 0, name = ''Wireless Headphones'',
     description = ''Noise-cancelling'', price = Fin 20, category = Electronics, stock = Fin 5,
     imageUrl = ''hp.jpg'', sellerId = ''seller_admin_1'', Product.rating = None,
     reviewsCount = None\<rparr>"

definition book :: Product where
  "book = \<lparr>id' = [], createdAt = 0, updatedAt = 0, name = ''TypeScript Deep Dive'',
     description = ''Guide'', price = Fin 40, category = Books, stock = Fin 1,
     imageUrl = ''ts_book.jpg'', sellerId = ''seller_admin_1'', Product.rating = None,
     reviewsCount = None\<rparr>"

definition home :: Address where
  "home = \<lparr>street = ''123 Main St'', city = ''Anytown'', state = ''CA'', zipCode = ''90210'',
     country = ''USA''\<rparr>"

definition world_user :: World where
  "world_user = snd (registerUser alice world0)"

definition world_shop :: World where
  "world_shop = snd (addProduct book (snd (addProduct headphones world_user)))"

text \<open>The ids that these calls have issued.\<close>

definition alice_id :: string where
  "alice_id = ''entity_1001_i''"

definition headphones_id :: string where
  "headphones_id = ''entity_1003_i''"

definition book_id :: string where
  "book_id = ''entity_1005_i''"

text \<open>An order of two headphones, and the same order cancelled once and twice.\<close>

definition world_ordered :: World where
  "world_ordered = snd (createOrder alice_id
      [\<lparr>LineItem.productId = headphones_id, LineItem.quantity = Fin 2\<rparr>] home CreditCard world_shop)"

definition order_id :: string where
  "order_id = ''entity_1008_i''"

definition world_cancelled :: World where
  "world_cancelled = snd (updateOrderStatus order_id Cancelled world_ordered)"

definition world_cancelled_twice :: World where
  "world_cancelled_twice = snd (updateOrderStatus order_id Cancelled world_cancelled)"

text \<open>Two line items, the second one asking for more books than there are.\<close>

definition two_items :: "LineItem list" where
  "two_items = [\<lparr>LineItem.productId = headphones_id, LineItem.quantity = Fin 2\<rparr>,
                \<lparr>LineItem.productId = book_id, LineItem.quantity = Fin 3\<rparr>]"

text \<open>The update objects \<^verbatim>\<open>{ stock: -1 }\<close> and \<^verbatim>\<open>{ email: ... }\<close>.\<close>

definition stock_minus_one :: ProductUpdates where
  "stock_minus_one = \<lparr>ProductUpdates.name = None, ProductUpdates.description = None,
     ProductUpdates.price = None, ProductUpdates.category = None,
     ProductUpdates.stock = Some (Fin (- 1)),
     ProductUpdates.imageUrl = None, ProductUpdates.sellerId = None, ProductUpdates.rating = None,
     ProductUpdates.reviewsCount = None, ProductUpdates.updatedAt = None\<rparr>"

definition new_email :: UserUpdates where
  "new_email = \<lparr>UserUpdates.username = None, UserUpdates.email = Some ''alice@example.org'',
     UserUpdates.role = None, UserUpdates.address = None, UserUpdates.phone = None,
     UserUpdates.updatedAt = None\<rparr>"

text \<open>The order paid: the random number \<open>1/2\<close> is above \<^verbatim>\<open>0.1\<close>.\<close>

definition world_paid :: World where
  "world_paid = snd (processPayment order_id alice_id (Fin 40) CreditCard world_ordered)"

text \<open>
  The same calls up to the order in an environment whose random numbers are \<open>1/16\<close>,
  written \<^verbatim>\<open>0.29\<close> in base 36, from the fifth one on. The first four are drawn by the
  calls of \<^verbatim>\<open>add\<close> that store the user, the products and the order.
\<close>

definition env_unlucky :: Env where
  "env_unlucky = \<lparr>clock = (\<lambda>k. 1000 + k), ticks = 0,
      rng = (\<lambda>k. if k < 4 then \<lparr>rvalue = Fin (1 / 2), base36 = ''0.i''\<rparr>
                 else \<lparr>rvalue = Fin (1 / 16), base36 = ''0.29''\<rparr>), draws = 0\<rparr>"

definition world_unlucky :: World where
  "world_unlucky =
     snd (createOrder alice_id [\<lparr>LineItem.productId = headphones_id, LineItem.quantity = Fin 2\<rparr>]
       home CreditCard
       (snd (addProduct book (snd (addProduct headphones
          (snd (registerUser alice (world0\<lparr>env := env_unlucky\<rparr>))))))))"

text \<open>
  Two calls of \<^verbatim>\<open>add\<close> on one repository within the same millisecond that draw the same
  random number.
\<close>

definition env_same :: Env where
  "env_same = \<lparr>clock = (\<lambda>k. 1000), ticks = 0,
      rng = (\<lambda>k. \<lparr>rvalue = Fin (1 / 2), base36 = ''0.i''\<rparr>), draws = 0\<rparr>"

definition first_add :: "Product \<times> Env \<times> Product db" where
  "first_add = db_add headphones env_same []"

definition second_add :: "Product \<times> Env \<times> Product db" where
  "second_add = db_add book (fst (snd first_add)) (snd (snd first_add))"

text \<open>
  Reviews, and the state after the headphones have been rated 5, the book 1 and the
  headphones 3.
\<close>

definition review_of :: "string \<Rightarrow> number \<Rightarrow> Review" where
  "review_of pid r = \<lparr>id' = [], createdAt = 0, updatedAt = 0, Review.productId = pid,
     Review.userId = alice_id, Review.rating = r, comment = ''ok''\<rparr>"


text \<open>
  A product with the price \<^verbatim>\<open>0.1\<close> and the stock \<^verbatim>\<open>0.3\<close>, the doubles nearest to one tenth
  and to three tenths, and a product with the same price and the stock 10; line items that
  ask for \<^verbatim>\<open>0.1\<close> of the first one three times, and for 3 of the second one.
\<close>

definition tenth :: number where
  "tenth = Fin (3602879701896397 / 36028797018963968)"

definition three_tenths :: number where
  "three_tenths = Fin (5404319552844595 / 18014398509481984)"

definition powder :: Product where
  "powder = \<lparr>id' = [], createdAt = 0, updatedAt = 0, name = ''Powder'',
     description = ''By weight'', price = tenth, category = Food, stock = three_tenths,
     imageUrl = ''powder.jpg'', sellerId = ''seller_admin_1'', Product.rating = None,
     reviewsCount = None\<rparr>"

definition candy :: Product where
  "candy = \<lparr>id' = [], createdAt = 0, updatedAt = 0, name = ''Candy'',
     description = ''By piece'', price = tenth, category = Food, stock = Fin 10,
     imageUrl = ''candy.jpg'', sellerId = ''seller_admin_1'', Product.rating = None,
     reviewsCount = None\<rparr>"

definition world_food :: World where
  "world_food = snd (addProduct candy (snd (addProduct powder world_shop)))"

definition powder_id :: string where
  "powder_id = ''entity_1007_i''"

definition candy_id :: string where
  "candy_id = ''entity_1009_i''"

definition three_portions :: "LineItem list" where
  "three_portions = [\<lparr>LineItem.productId = powder_id, LineItem.quantity = tenth\<rparr>,
                     \<lparr>LineItem.productId = powder_id, LineItem.quantity = tenth\<rparr>,
                     \<lparr>LineItem.productId = powder_id, LineItem.quantity = tenth\<rparr>]"

definition three_candies :: "LineItem list" where
  "three_candies = [\<lparr>LineItem.productId = candy_id, LineItem.quantity = Fin 3\<rparr>]"

section \<open>Facts about the environment and the repository\<close>

lemma Date_now_simps [simp]: "fst (Date_now e) = clock e (ticks e)"
  "snd (Date_now e) = e\<lparr>ticks := Suc (ticks e)\<rparr>"
  by (simp_all add: Date_now_def)

lemma Math_random_simps [simp]: "fst (Math_random e) = rng e (draws e)"
  "snd (Math_random e) = e\<lparr>draws := Suc (draws e)\<rparr>"
  by (simp_all add: Math_random_def)

lemma db_add_eq:
  "db_add item e db =
     (item\<lparr>id' := new_id e, createdAt := clock e (Suc (ticks e)), updatedAt := clock e (Suc (ticks e))\<rparr>,
      after_add e,
      AList.update (new_id e)
        (item\<lparr>id' := new_id e, createdAt := clock e (Suc (ticks e)), updatedAt := clock e (Suc (ticks e))\<rparr>) db)"
  by (simp add: db_add_def Date_now_def Math_random_def Let_def new_id_def after_add_def)

lemma db_update_Some:
  assumes "db_get i db = Some x"
  shows "db_update i f e db =
    (Some ((f x)\<lparr>updatedAt := clock e (ticks e)\<rparr>), e\<lparr>ticks := Suc (ticks e)\<rparr>,
     AList.update i ((f x)\<lparr>updatedAt := clock e (ticks e)\<rparr>) db)"
  using assms by (simp add: db_update_def db_get_def Date_now_def Let_def)

lemma db_get_update: "db_get k (AList.update i v db) = (if k = i then Some v else db_get k db)"
  by (simp add: db_get_def update_conv')


lemma filter_update_fresh:
  assumes "filter P (map snd al) = []" and "P v"
  shows "filter P (map snd (AList.update k v al)) = [v]"
  using assms by (induction al) (auto split: if_splits)

subsection \<open>Every record is stored under its own id\<close>

lemma keys_are_ids_update:
  "keys_are_ids db \<Longrightarrow> id' v = k \<Longrightarrow> keys_are_ids (AList.update k v db)"
  by (induction db) (auto simp: keys_are_ids_def)


lemma keys_are_ids_get: "keys_are_ids db \<Longrightarrow> db_get k db = Some r \<Longrightarrow> id' r = k"
  by (auto simp: keys_are_ids_def db_get_def list_all_iff dest!: map_of_SomeD)






lemma world0_reachable: "reachable world0"
  unfolding world0_def by (rule reachable.start)

lemma world_shop_reachable: "reachable world_shop"
  unfolding world_shop_def world_user_def
  by (intro reachable.addProduct reachable.registerUser world0_reachable)

lemma world_ordered_reachable: "reachable world_ordered"
  unfolding world_ordered_def
  by (intro reachable.createOrder world_shop_reachable)

lemma world_paid_reachable: "reachable world_paid"
  unfolding world_paid_def
  by (intro reachable.processPayment world_ordered_reachable)

lemma world_unlucky_reachable: "reachable world_unlucky"
  unfolding world_unlucky_def world0_def
  by (intro reachable.createOrder reachable.addProduct reachable.registerUser)
     (simp add: reachable.start)


lemma world_food_reachable: "reachable world_food"
  unfolding world_food_def
  by (intro reachable.addProduct world_shop_reachable)

subsection \<open>The decimal rendering is injective and has no underscore\<close>

lemma digit_char_inj: "a < 10 \<Longrightarrow> b < 10 \<Longrightarrow> digit_char a = digit_char b \<Longrightarrow> a = b"
proof -
  assume a: "a < 10" and b: "b < 10" and eq: "digit_char a = digit_char b"
  from eq have "(of_char (digit_char a) :: nat) = of_char (digit_char b)" by simp
  then have "(48 + a) mod 256 = (48 + b) mod 256"
    by (simp add: digit_char_def of_char_of)
  with a b show "a = b" by simp
qed

lemma digit_char_not_underscore: "d < 10 \<Longrightarrow> digit_char d \<noteq> CHR ''_''"
proof
  assume d: "d < 10" and eq: "digit_char d = CHR ''_''"
  from eq have "(of_char (digit_char d) :: nat) = of_char CHR ''_''" by simp
  then have "(48 + d) mod 256 = 95"
    by (simp add: digit_char_def of_char_of)
  with d show False by simp
qed

lemma show_nat_nonempty: "show_nat n \<noteq> []"
  by (subst show_nat.simps) simp

lemma show_nat_no_underscore: "CHR ''_'' \<notin> set (show_nat n)"
proof (induction n rule: show_nat.induct)
  case (1 n)
  show ?case
  proof (cases "n < 10")
    case True
    then show ?thesis
      using digit_char_not_underscore [of n] by (subst show_nat.simps) auto
  next
    case False
    then show ?thesis
      using "1.IH" digit_char_not_underscore [of "n mod 10"]
      by (subst show_nat.simps) auto
  qed
qed

lemma show_nat_inj: "show_nat m = show_nat n \<Longrightarrow> m = n"
proof (induction m arbitrary: n rule: show_nat.induct)
  case (1 m)
  show ?case
  proof (cases "m < 10")
    case m: True
    show ?thesis
    proof (cases "n < 10")
      case True
      with m "1.prems" show ?thesis
        by (simp add: show_nat.simps [of m] show_nat.simps [of n] digit_char_inj)
    next
      case False
      with m "1.prems" show_nat_nonempty [of "n div 10"] show ?thesis
        by (simp add: show_nat.simps [of m] show_nat.simps [of n] Cons_eq_append_conv)
    qed
  next
    case m: False
    show ?thesis
    proof (cases "n < 10")
      case True
      with m "1.prems" show_nat_nonempty [of "m div 10"] show ?thesis
        by (simp add: show_nat.simps [of m] show_nat.simps [of n] append_eq_Cons_conv)
    next
      case False
      with m "1.prems" have "show_nat (m div 10) = show_nat (n div 10)"
        and "digit_char (m mod 10) = digit_char (n mod 10)"
        by (simp_all add: show_nat.simps [of m] show_nat.simps [of n])
      then have "m div 10 = n div 10" and "m mod 10 = n mod 10"
        using "1.IH" [OF m] by (auto intro: digit_char_inj)
      then show ?thesis
        by (metis div_mult_mod_eq)
    qed
  qed
qed

lemma split_at_separator:
  "c \<notin> set xs \<Longrightarrow> c \<notin> set ys \<Longrightarrow> xs @ c # s = ys @ c # t \<Longrightarrow> xs = ys \<and> s = t"
proof (induction xs arbitrary: ys)
  case Nil
  then show ?case by (cases ys) auto
next
  case (Cons x xs)
  then show ?case by (cases ys) auto
qed

lemma new_id_eq_iff:
  "new_id e = new_id e2 \<longleftrightarrow>
     clock e (ticks e) = clock e2 (ticks e2) \<and>
     substring 2 9 (base36 (rng e (draws e))) = substring 2 9 (base36 (rng e2 (draws e2)))"
proof
  assume "new_id e = new_id e2"
  then have "show_nat (clock e (ticks e)) @ CHR ''_'' # substring 2 9 (base36 (rng e (draws e)))
     = show_nat (clock e2 (ticks e2)) @ CHR ''_'' # substring 2 9 (base36 (rng e2 (draws e2)))"
    by (simp add: new_id_def)
  from split_at_separator [OF show_nat_no_underscore show_nat_no_underscore this]
  show "clock e (ticks e) = clock e2 (ticks e2) \<and>
     substring 2 9 (base36 (rng e (draws e))) = substring 2 9 (base36 (rng e2 (draws e2)))"
    by (auto dest: show_nat_inj)
next
  assume "clock e (ticks e) = clock e2 (ticks e2) \<and>
     substring 2 9 (base36 (rng e (draws e))) = substring 2 9 (base36 (rng e2 (draws e2)))"
  then show "new_id e = new_id e2" by (simp add: new_id_def)
qed

subsection \<open>The loop of createOrder\<close>

lemma stock_moved_Nil: "stock_moved [] p p"
  by (simp add: stock_moved_def decremented_def)

lemma stock_moved_trans:
  "stock_moved qs p p' \<Longrightarrow> stock_moved qs' p' p'' \<Longrightarrow> stock_moved (qs @ qs') p p''"
  unfolding stock_moved_def decremented_def
  by (cases p, cases p', cases p'') simp

lemma stock_moved_captured: "stock_moved qs p p' \<Longrightarrow> captured p' it = captured p it"
  unfolding stock_moved_def captured_def
  by (cases p, cases p') auto

lemma capture_all_cong:
  assumes "\<And>pid. rel_option (\<lambda>p p'. \<forall>it. captured p' it = captured p it) (db_get pid pdb) (db_get pid pdb1)"
  shows "capture_all pdb1 its = capture_all pdb its"
proof -
  have "(case db_get (LineItem.productId it) pdb1 of None \<Rightarrow> [] | Some p \<Rightarrow> [captured p it]) =
        (case db_get (LineItem.productId it) pdb of None \<Rightarrow> [] | Some p \<Rightarrow> [captured p it])" for it
    using assms [of "LineItem.productId it"]
    by (auto simp: option_rel_Some1 option_rel_Some2 split: option.splits)
  then show ?thesis by (simp add: capture_all_def)
qed

lemma ordered_quantities_Cons:
  "ordered_quantities pid (it # rest) =
     (if LineItem.productId it = pid then [LineItem.quantity it] else []) @ ordered_quantities pid rest"
  by (simp add: ordered_quantities_def)

text \<open>
  When the loop runs to its end, every product has lost what the line items ask of it, one
  quantity after the other, and nothing else but \<^verbatim>\<open>updatedAt\<close> has changed; every line item
  has found its product; and the accumulators hold the captured items and the total with
  their subtotals added to it in order.
\<close>

lemma createOrder_loop_success:
  assumes "createOrder_loop its ois tot e pdb = (Inr (ois', tot'), e', pdb')"
    and "keys_are_ids pdb"
  shows "keys_are_ids pdb' \<and>
     (\<forall>pid. rel_option (stock_moved (ordered_quantities pid its)) (db_get pid pdb) (db_get pid pdb')) \<and>
     (\<forall>it \<in> set its. db_get (LineItem.productId it) pdb \<noteq> None) \<and>
     ois' = ois @ capture_all pdb its \<and>
     tot' = foldl num_add tot (subtotals (capture_all pdb its))"
  using assms
proof (induction its arbitrary: ois tot e pdb)
  case Nil
  then show ?case
    by (auto simp: ordered_quantities_def capture_all_def subtotals_def stock_moved_Nil
        intro!: option.rel_refl)
next
  case (Cons it rest)
  let ?pid = "LineItem.productId it" and ?q = "LineItem.quantity it"
  from Cons.prems(1) obtain product where
    P: "db_get ?pid pdb = Some product" and S: "\<not> num_less (stock product) ?q"
    by (auto split: option.splits if_splits)
  have idp: "id' product = ?pid"
    using keys_are_ids_get [OF Cons.prems(2) P] .
  define product1 where
    "product1 = product\<lparr>stock := num_sub (stock product) ?q, updatedAt := clock e (ticks e)\<rparr>"
  define pdb1 where "pdb1 = AList.update ?pid product1 pdb"
  define e1 where "e1 = e\<lparr>ticks := Suc (ticks e)\<rparr>"
  have upd: "db_update ?pid (\<lambda>p. p\<lparr>stock := num_sub (stock product) ?q\<rparr>) e pdb
      = (Some product1, e1, pdb1)"
    by (simp add: db_update_Some [OF P] product1_def pdb1_def e1_def)
  have loop: "createOrder_loop rest (ois @ [captured product it])
      (num_add tot (num_mul (price product) ?q)) e1 pdb1 = (Inr (ois', tot'), e', pdb')"
    using Cons.prems(1) P S by (simp add: idp upd captured_def)
  have k1: "keys_are_ids pdb1"
    unfolding pdb1_def
    by (rule keys_are_ids_update [OF Cons.prems(2)]) (simp add: product1_def idp)
  note IH = Cons.IH [OF loop k1]
  have m1: "stock_moved [?q] product product1"
    by (simp add: stock_moved_def decremented_def product1_def)
  have get1: "db_get pid pdb1 = (if pid = ?pid then Some product1 else db_get pid pdb)" for pid
    by (simp add: pdb1_def db_get_update)
  have step: "rel_option (stock_moved (if ?pid = pid then [?q] else [])) (db_get pid pdb) (db_get pid pdb1)" for pid
    using P m1 by (auto simp: get1 stock_moved_Nil intro!: option.rel_refl)
  have moved: "rel_option (stock_moved (ordered_quantities pid (it # rest))) (db_get pid pdb) (db_get pid pdb')" for pid
  proof -
    from IH have r2: "rel_option (stock_moved (ordered_quantities pid rest)) (db_get pid pdb1) (db_get pid pdb')"
      by blast
    show ?thesis
      using step [of pid] r2
      by (cases "db_get pid pdb"; cases "db_get pid pdb1"; cases "db_get pid pdb'")
         (auto simp: ordered_quantities_Cons dest: stock_moved_trans)
  qed
  have cap: "capture_all pdb1 rest = capture_all pdb rest"
  proof (rule capture_all_cong)
    fix pid
    show "rel_option (\<lambda>p p'. \<forall>it. captured p' it = captured p it) (db_get pid pdb) (db_get pid pdb1)"
      using step [of pid]
      by (rule option.rel_mono_strong) (auto dest: stock_moved_captured)
  qed
  have exists: "\<forall>x \<in> set (it # rest). db_get (LineItem.productId x) pdb \<noteq> None"
  proof
    fix x assume "x \<in> set (it # rest)"
    then consider "x = it" | "x \<in> set rest" by auto
    then show "db_get (LineItem.productId x) pdb \<noteq> None"
    proof cases
      case 1 then show ?thesis using P by simp
    next
      case 2
      with IH have "db_get (LineItem.productId x) pdb1 \<noteq> None" by blast
      then show ?thesis using P by (auto simp: get1 split: if_splits)
    qed
  qed
  have capc: "capture_all pdb (it # rest) = captured product it # capture_all pdb rest"
    using P by (simp add: capture_all_def)
  from IH have "keys_are_ids pdb'" and "ois' = (ois @ [captured product it]) @ capture_all pdb1 rest"
    and "tot' = foldl num_add (num_add tot (num_mul (price product) ?q))
           (subtotals (capture_all pdb1 rest))"
    by blast+
  then show ?case
    using moved exists by (simp add: cap capc subtotals_def captured_def)
qed

subsection \<open>Rounding to one decimal place\<close>


subsection \<open>Integers up to \<open>2^53\<close> are doubles\<close>

text \<open>The number of digits of a positive integer encloses it between two powers of two.\<close>

lemma bitlen_nonneg: "0 \<le> bitlen k"
proof (induction k rule: bitlen.induct)
  case (1 k)
  then show ?case by (subst bitlen.simps) auto
qed

lemma bitlen_pos: "0 < k \<Longrightarrow> 1 \<le> bitlen k"
  using bitlen_nonneg [of "k div 2"] by (subst bitlen.simps) simp

lemma bitlen_bounds: "0 < k \<Longrightarrow> 2 ^ nat (bitlen k - 1) \<le> k \<and> k < 2 ^ nat (bitlen k)"
proof (induction k rule: bitlen.induct)
  case (1 k)
  show ?case
  proof (cases "k = 1")
    case True
    then show ?thesis by (simp add: bitlen.simps [of 1] bitlen.simps [of 0])
  next
    case False
    with "1.prems" have h: "0 < k div 2" by simp
    from "1.IH" h "1.prems" have IH: "2 ^ nat (bitlen (k div 2) - 1) \<le> k div 2"
      "k div 2 < 2 ^ nat (bitlen (k div 2))" by auto
    have b: "bitlen k = 1 + bitlen (k div 2)" using "1.prems" by (subst bitlen.simps) simp
    have p: "1 \<le> bitlen (k div 2)" using bitlen_pos [OF h] .
    have e1: "nat (bitlen k - 1) = Suc (nat (bitlen (k div 2) - 1))" using b p by simp
    have e2: "nat (bitlen k) = Suc (nat (bitlen (k div 2)))" using b p by simp
    from IH show ?thesis unfolding e1 e2 by simp linarith
  qed
qed

lemma pow2_powi: "pow2 k = power_int 2 k"
  by (simp add: pow2_def power_int_def power_one_over inverse_eq_divide)

lemma pow2_pos: "0 < pow2 k"
  by (simp add: pow2_powi)

lemma pow2_less_iff: "pow2 m < pow2 n \<longleftrightarrow> m < n"
proof
  assume "pow2 m < pow2 n"
  show "m < n"
  proof (rule ccontr)
    assume "\<not> m < n"
    then have "n \<le> m" by simp
    then have "pow2 n \<le> pow2 m"
      unfolding pow2_powi by (intro power_int_increasing) auto
    with \<open>pow2 m < pow2 n\<close> show False by simp
  qed
next
  assume "m < n"
  then show "pow2 m < pow2 n"
    unfolding pow2_powi by (intro power_int_strict_increasing) auto
qed

lemma pow2_le_iff: "pow2 m \<le> pow2 n \<longleftrightarrow> m \<le> n"
  using pow2_less_iff [of n m] by (auto simp: not_less [symmetric])

lemma pow2_diff: "pow2 (m - n) = pow2 m / pow2 n"
  unfolding pow2_powi by (rule power_int_diff) simp

lemma pow2_nat: "0 \<le> k \<Longrightarrow> pow2 k = 2 ^ nat k"
  by (simp add: pow2_def)

lemma bitlen_rat_bounds:
  assumes "0 < k"
  shows "pow2 (bitlen k - 1) \<le> of_int k" and "of_int k < pow2 (bitlen k)"
proof -
  note b = bitlen_bounds [OF assms] and p = bitlen_pos [OF assms]
  from b have "(of_int (2 ^ nat (bitlen k - 1)) :: rat) \<le> of_int k"
    by (simp only: of_int_le_iff)
  then show "pow2 (bitlen k - 1) \<le> of_int k"
    using p by (simp add: pow2_nat)
  from b have "(of_int k :: rat) < of_int (2 ^ nat (bitlen k))"
    by (simp only: of_int_less_iff)
  then show "of_int k < pow2 (bitlen k)"
    using p by (simp add: pow2_nat)
qed

text \<open>The exponent of a positive rational is the one of the power of two below it.\<close>

lemma exponent_bounds:
  assumes "0 < a"
  shows "pow2 (exponent a) \<le> a \<and> a < pow2 (exponent a + 1)"
proof -
  obtain p q where pq: "quotient_of a = (p, q)" by (cases "quotient_of a")
  then have q: "0 < q" and a: "a = of_int p / of_int q"
    by (auto simp: quotient_of_denom_pos quotient_of_div)
  have qpos: "(0::rat) < of_int q" using q by simp
  with assms a have p: "0 < p"
    by (simp add: zero_less_divide_iff)
  define bp where "bp = bitlen p"
  define bq where "bq = bitlen q"
  have e: "exponent a = (if pow2 (bp - bq) \<le> a then bp - bq else bp - bq - 1)"
    by (simp add: exponent_def pq bp_def bq_def)
  note P = bitlen_rat_bounds [OF p, folded bp_def] and Q = bitlen_rat_bounds [OF q, folded bq_def]
  have upper: "a < pow2 (bp - bq + 1)"
  proof -
    have "a < pow2 bp / of_int q"
      unfolding a using P(2) qpos by (rule divide_strict_right_mono)
    also have "\<dots> \<le> pow2 bp / pow2 (bq - 1)"
    proof (rule divide_left_mono [OF Q(1)])
      show "0 \<le> pow2 bp" using pow2_pos [of bp] by simp
      show "0 < rat_of_int q * pow2 (bq - 1)" using qpos pow2_pos [of "bq - 1"] by simp
    qed
    also have "\<dots> = pow2 (bp - (bq - 1))"
      by (rule pow2_diff [symmetric])
    also have "bp - (bq - 1) = bp - bq + 1" by simp
    finally show ?thesis .
  qed
  have lower: "pow2 (bp - bq - 1) \<le> a"
  proof -
    have "bp - bq - 1 = (bp - 1) - bq" by simp
    then have "pow2 (bp - bq - 1) = pow2 (bp - 1) / pow2 bq"
      by (simp only: pow2_diff)
    also have "\<dots> \<le> pow2 (bp - 1) / of_int q"
    proof (rule divide_left_mono)
      show "rat_of_int q \<le> pow2 bq" using Q(2) by simp
      show "0 \<le> pow2 (bp - 1)" using pow2_pos [of "bp - 1"] by simp
      show "0 < pow2 bq * rat_of_int q" using qpos pow2_pos [of bq] by simp
    qed
    also have "\<dots> \<le> a"
      unfolding a using P(1) qpos by (intro divide_right_mono) auto
    finally show ?thesis .
  qed
  show ?thesis
  proof (cases "pow2 (bp - bq) \<le> a")
    case True
    with upper show ?thesis by (simp add: e)
  next
    case False
    with lower show ?thesis by (simp add: e)
  qed
qed

lemma round_half_even_of_int: "round_half_even (of_int n) = n"
  by (simp add: round_half_even_def)

text \<open>
  An integer of magnitude up to \<open>2^53\<close> is its own double, so on such integers the sum,
  the difference and the product of the program are the exact ones when they stay in that
  range.
\<close>

lemma round64_of_int:
  assumes "\<bar>k\<bar> \<le> 2 ^ 53"
  shows "round64 (of_int k) = Fin (of_int k)"
proof (cases "k = 0")
  case True
  then show ?thesis by (simp add: round64_def)
next
  case False
  define a :: rat where "a = of_int \<bar>k\<bar>"
  have ak: "\<bar>rat_of_int k\<bar> = a" by (simp add: a_def)
  from False have "1 \<le> \<bar>k\<bar>" by simp
  then have "rat_of_int 1 \<le> rat_of_int \<bar>k\<bar>" by (simp only: of_int_le_iff)
  then have a1: "1 \<le> a" by (simp add: a_def)
  from assms have "rat_of_int \<bar>k\<bar> \<le> rat_of_int (2 ^ 53)" by (simp only: of_int_le_iff)
  then have a2: "a \<le> pow2 53" by (simp add: a_def pow2_def)
  define e where "e = exponent a"
  from a1 have "0 < a" by simp
  from exponent_bounds [OF this] have B: "pow2 e \<le> a" "a < pow2 (e + 1)"
    by (simp_all add: e_def)
  have "pow2 0 = 1" by (simp add: pow2_def)
  with a1 B(2) have "pow2 0 < pow2 (e + 1)" by simp
  then have e0: "0 \<le> e" by (simp add: pow2_less_iff)
  from B(1) a2 have "pow2 e \<le> pow2 53" by simp
  then have e53: "e \<le> 53" by (simp add: pow2_le_iff)
  have m: "max e (- 1022) = e" using e0 by simp
  have "\<exists>n :: int. a = of_int n * pow2 (e - 52)"
  proof (cases "e = 53")
    case True
    with B(1) a2 have "a = pow2 53" by simp
    also have "pow2 53 = of_int (2 ^ 52) * pow2 (53 - 52)" by (simp add: pow2_def)
    finally show ?thesis using True by blast
  next
    case False
    with e53 have le: "e \<le> 52" by simp
    then have "pow2 (e - 52) * 2 ^ nat (52 - e) = 1"
      by (cases "e = 52") (simp_all add: pow2_def)
    then have "a = of_int (\<bar>k\<bar> * 2 ^ nat (52 - e)) * pow2 (e - 52)"
      by (simp add: a_def mult.assoc mult.commute)
    then show ?thesis by blast
  qed
  then obtain n :: int where n: "a = of_int n * pow2 (e - 52)" by blast
  have ulp: "pow2 (e - 52) \<noteq> 0" using pow2_pos [of "e - 52"] by simp
  have q: "a / pow2 (e - 52) = of_int n" using n ulp by simp
  have nz: "rat_of_int k \<noteq> 0" using False by simp
  have no: "\<not> (1023 < e \<or> (e = 1023 \<and> 2 ^ 53 \<le> n))" using e53 by simp
  have "round64 (of_int k) =
      Fin ((if rat_of_int k < 0 then - 1 else 1) * of_int n * pow2 (e - 52))"
    unfolding round64_def Let_def ak e_def [symmetric] m q round_half_even_of_int
    using nz no by simp
  also have "(if rat_of_int k < 0 then - 1 else 1) * of_int n * pow2 (e - 52) = of_int k"
    using n by (simp add: a_def mult.assoc abs_if split: if_splits)
  finally show ?thesis .
qed

lemma num_add_integers:
  "\<bar>a + b\<bar> \<le> 2 ^ 53 \<Longrightarrow> num_add (Fin (of_int a)) (Fin (of_int b)) = Fin (of_int (a + b))"
  using round64_of_int [of "a + b"] by simp

lemma num_sub_integers:
  "\<bar>a - b\<bar> \<le> 2 ^ 53 \<Longrightarrow> num_sub (Fin (of_int a)) (Fin (of_int b)) = Fin (of_int (a - b))"
  using round64_of_int [of "a - b"] by (simp add: num_sub_def)

lemma num_mul_integers:
  "\<bar>a * b\<bar> \<le> 2 ^ 53 \<Longrightarrow> num_mul (Fin (of_int a)) (Fin (of_int b)) = Fin (of_int (a * b))"
  using round64_of_int [of "a * b"] by simp

text \<open>
  Taking quantities that are integers, not negative and together at most the stock, from a
  stock that is an integer up to \<open>2^53\<close> leaves the stock minus their sum; and the sum of
  such integers is the exact one. Their mean is the exact quotient, rounded once.
\<close>

lemma decremented_integers:
  assumes "\<forall>q \<in> set qs. 0 \<le> q" and "sum_list qs \<le> s" and "s \<le> 2 ^ 53"
  shows "decremented (Fin (of_int s)) (map (\<lambda>q. Fin (of_int q)) qs) = Fin (of_int (s - sum_list qs))"
  using assms
proof (induction qs arbitrary: s)
  case Nil
  then show ?case by (simp add: decremented_def)
next
  case (Cons q qs)
  from Cons.prems have q: "0 \<le> q" and rest: "\<forall>x \<in> set qs. 0 \<le> x"
    and le: "q + sum_list qs \<le> s" by simp_all
  have nn: "0 \<le> sum_list qs" using rest by (simp add: sum_list_nonneg)
  have "\<bar>s - q\<bar> \<le> 2 ^ 53" using q le nn Cons.prems(3) by simp
  then have one: "num_sub (Fin (of_int s)) (Fin (of_int q)) = Fin (of_int (s - q))"
    by (rule num_sub_integers)
  have "decremented (Fin (of_int (s - q))) (map (\<lambda>q. Fin (of_int q)) qs)
      = Fin (of_int (s - q - sum_list qs))"
    using rest le q Cons.prems(3) by (intro Cons.IH) simp_all
  then show ?case
    unfolding decremented_def list.map foldl_Cons one by (simp add: algebra_simps)
qed

lemma sum_in_order_integers:
  assumes "\<forall>x \<in> set xs. 0 \<le> x" and "sum_list xs \<le> 2 ^ 53"
  shows "sum_in_order (map (\<lambda>x. Fin (of_int x)) xs) = Fin (of_int (sum_list xs))"
proof -
  have "foldl num_add (Fin (of_int a)) (map (\<lambda>x. Fin (of_int x)) xs) = Fin (of_int (a + sum_list xs))"
    if "\<forall>x \<in> set xs. 0 \<le> x" and "0 \<le> a" and "a + sum_list xs \<le> 2 ^ 53" for a
    using that
  proof (induction xs arbitrary: a)
    case Nil
    then show ?case by simp
  next
    case (Cons x xs)
    from Cons.prems have x: "0 \<le> x" and rest: "\<forall>y \<in> set xs. 0 \<le> y" by simp_all
    have nn: "0 \<le> sum_list xs" using rest by (simp add: sum_list_nonneg)
    have "\<bar>a + x\<bar> \<le> 2 ^ 53" using Cons.prems x nn by simp
    then have one: "num_add (Fin (of_int a)) (Fin (of_int x)) = Fin (of_int (a + x))"
      by (rule num_add_integers)
    have "foldl num_add (Fin (of_int (a + x))) (map (\<lambda>x. Fin (of_int x)) xs)
        = Fin (of_int (a + x + sum_list xs))"
      using rest x Cons.prems by (intro Cons.IH) simp_all
    then show ?case
      unfolding list.map foldl_Cons one by (simp add: algebra_simps)
  qed
  from this [of 0] assms show ?thesis by (simp add: sum_in_order_def)
qed

lemma mean_of_integers:
  assumes "xs \<noteq> []" and "\<forall>x \<in> set xs. 0 \<le> x" and "sum_list xs \<le> 2 ^ 53"
  shows "mean_of (map (\<lambda>x. Fin (of_int x)) xs) = round64 (of_int (sum_list xs) / of_nat (length xs))"
  using assms(1)
  by (simp add: mean_of_def sum_in_order_integers [OF assms(2,3)] number_of_nat_def)

subsection \<open>The arithmetic of the model is that of doubles\<close>

text \<open>
  The doubles nearest to one tenth and to three tenths. Three candies at \<^verbatim>\<open>0.1\<close> cost
  \<^verbatim>\<open>0.30000000000000004\<close>, which is neither three tenths nor the double nearest to it. Of a
  stock of \<^verbatim>\<open>0.3\<close>, two portions of \<^verbatim>\<open>0.1\<close> leave \<^verbatim>\<open>0.09999999999999998\<close>, and a third
  portion is refused. The quotient of 81 by 20 is a double below \<open>4.05\<close>, which
  \<^verbatim>\<open>toFixed(1)\<close> makes \<^verbatim>\<open>4.0\<close>. A rating \<^verbatim>\<open>NaN\<close> passes the check of \<^verbatim>\<open>submitReview\<close>,
  both comparisons being false, and the rating of the product becomes \<^verbatim>\<open>NaN\<close>.
\<close>

lemma double_of_tenths: "round64 (1 / 10) = tenth \<and> round64 (3 / 10) = three_tenths"
  by code_simp

lemma double_total_of_three_candies:
  "map_option totalAmount (data (fst (createOrder alice_id three_candies home CreditCard world_food)))
     = Some (Fin (1351079888211149 / 4503599627370496)) \<and>
   Fin (1351079888211149 / 4503599627370496) \<noteq> Fin (3 / 10) \<and>
   Fin (1351079888211149 / 4503599627370496) \<noteq> three_tenths"
  by code_simp

lemma double_stock_of_three_portions:
  "stock_of powder_id world_food = Some three_tenths \<and>
   error (fst (createOrder alice_id three_portions home CreditCard world_food)) =
     Some (NotEnoughStock ''Powder'' (Fin (900719925474099 / 9007199254740992)) tenth)"
  by code_simp

lemma double_mean_of_81_by_20: "parseFloat (toFixed 1 (num_div (Fin 81) (Fin 20))) = Fin 4"
  by code_simp

lemma nan_rating_is_accepted:
  "success (fst (submitReview (review_of headphones_id NaN) world_shop)) \<and>
   map_option Product.rating (db_get headphones_id
      (productsDb (snd (submitReview (review_of headphones_id NaN) world_shop)))) = Some (Some NaN)"
  by code_simp

section \<open>The claims\<close>

subsection \<open>C1: a failing createOrder and the stock\<close>

text \<open>
  C1 says that after a call of \<^verbatim>\<open>createOrder\<close> that returns a failure the stock of every
  product is what it was before the call. The loop lowers the stock item by item and
  returns at the first item that fails, without restoring what the items before it have
  taken. In the state \<open>world_shop\<close> there are 5 headphones and 1 book; the order of 2
  headphones and 3 books fails for lack of books, and 3 headphones are left.
\<close>

theorem createOrder_failure_keeps_decrement:
  "reachable world_shop \<and>
   stock_of headphones_id world_shop = Some (Fin 5) \<and>
   success (fst (createOrder alice_id two_items home CreditCard world_shop)) = False \<and>
   error (fst (createOrder alice_id two_items home CreditCard world_shop)) =
     Some (NotEnoughStock ''TypeScript Deep Dive'' (Fin 1) (Fin 3)) \<and>
   stock_of headphones_id (snd (createOrder alice_id two_items home CreditCard world_shop))
     = Some (Fin 3)"
proof -
  have "stock_of headphones_id world_shop = Some (Fin 5) \<and>
   success (fst (createOrder alice_id two_items home CreditCard world_shop)) = False \<and>
   error (fst (createOrder alice_id two_items home CreditCard world_shop)) =
     Some (NotEnoughStock ''TypeScript Deep Dive'' (Fin 1) (Fin 3)) \<and>
   stock_of headphones_id (snd (createOrder alice_id two_items home CreditCard world_shop))
     = Some (Fin 3)"
    by code_simp
  with world_shop_reachable show ?thesis by simp
qed

subsection \<open>C2: cancelling twice\<close>

text \<open>
  C2 says that setting the status \<^verbatim>\<open>Cancelled\<close> on an order that is cancelled already does
  not raise the stock again. The branch \<^verbatim>\<open>Cancelled\<close> of \<^verbatim>\<open>updateOrderStatus\<close> adds the
  quantities back at every call. After the order of 2 of the 5 headphones the stock is 3,
  after the first cancellation it is 5, and after the second one it is 7.
\<close>

theorem cancel_twice_restores_twice:
  "reachable world_ordered \<and>
   stock_of headphones_id world_shop = Some (Fin 5) \<and>
   stock_of headphones_id world_ordered = Some (Fin 3) \<and>
   stock_of headphones_id world_cancelled = Some (Fin 5) \<and>
   map_option Order.status (db_get order_id (ordersDb world_cancelled)) = Some Cancelled \<and>
   success (fst (updateOrderStatus order_id Cancelled world_cancelled)) = True \<and>
   stock_of headphones_id world_cancelled_twice = Some (Fin 7)"
proof -
  have "stock_of headphones_id world_shop = Some (Fin 5) \<and>
   stock_of headphones_id world_ordered = Some (Fin 3) \<and>
   stock_of headphones_id world_cancelled = Some (Fin 5) \<and>
   map_option Order.status (db_get order_id (ordersDb world_cancelled)) = Some Cancelled \<and>
   success (fst (updateOrderStatus order_id Cancelled world_cancelled)) = True \<and>
   stock_of headphones_id world_cancelled_twice = Some (Fin 7)"
    by code_simp
  with world_ordered_reachable show ?thesis by simp
qed

subsection \<open>C3: the stock is never negative\<close>

text \<open>
  C3 says that in every state reachable by the operations of the services the stock of
  every product is at least zero. \<^verbatim>\<open>addProduct\<close> refuses a negative stock, and
  \<^verbatim>\<open>updateProduct\<close> stores any stock it is given: from the reachable state \<open>world_shop\<close>
  the update \<^verbatim>\<open>{ stock: -1 }\<close> succeeds and leaves the stock of the headphones at \<open>-1\<close>.
\<close>

theorem updateProduct_negative_stock:
  "reachable (snd (updateProduct headphones_id stock_minus_one world_shop)) \<and>
   stock_of headphones_id world_shop = Some (Fin 5) \<and>
   success (fst (updateProduct headphones_id stock_minus_one world_shop)) = True \<and>
   stock_of headphones_id (snd (updateProduct headphones_id stock_minus_one world_shop))
     = Some (Fin (- 1))"
proof -
  have "reachable (snd (updateProduct headphones_id stock_minus_one world_shop))"
    by (rule reachable.updateProduct [OF world_shop_reachable])
  moreover have "stock_of headphones_id world_shop = Some (Fin 5) \<and>
   success (fst (updateProduct headphones_id stock_minus_one world_shop)) = True \<and>
   stock_of headphones_id (snd (updateProduct headphones_id stock_minus_one world_shop))
     = Some (Fin (- 1))"
    by code_simp
  ultimately show ?thesis by simp
qed

subsection \<open>C4: a successful createOrder\<close>

text \<open>Taking one quantity from a stock is the subtraction of the program.\<close>

lemma decremented_single: "decremented s [q] = num_sub s q"
  by (simp add: decremented_def)

text \<open>
  The statement of C4 for any state, reachable or not, whose products are stored under their
  own ids.
\<close>

lemma createOrder_success_keys:
  assumes "createOrder uid lineItems addr pm w = (resp, w')" and "success resp"
    and "keys_are_ids (productsDb w)"
  shows "(\<forall>pid p. db_get pid (productsDb w) = Some p \<longrightarrow>
            (\<exists>p'. db_get pid (productsDb w') = Some p' \<and>
                   stock p' = decremented (stock p) (ordered_quantities pid lineItems) \<and>
                   price p' = price p)) \<and>
         (\<exists>order. data resp = Some order \<and>
            list_all2 (\<lambda>it oi. \<exists>p. db_get (LineItem.productId it) (productsDb w) = Some p \<and>
                 oi = \<lparr>OrderItem.productId = LineItem.productId it, productName = name p,
                       OrderItem.quantity = LineItem.quantity it, priceAtOrder = price p\<rparr>)
              lineItems (items order) \<and>
            totalAmount order = sum_in_order (subtotals (items order)))"
proof -
  from assms(1,2) obtain user where U: "db_get uid (usersDb w) = Some user"
    by (auto simp: createOrder_def fail_def split: option.splits)
  obtain res e1 pdb1 where
    L: "createOrder_loop lineItems [] (Fin 0) (env w) (productsDb w) = (res, e1, pdb1)"
    by (metis prod_cases3)
  from assms(1,2) U L obtain ois tot where res: "res = Inr (ois, tot)"
    by (cases res) (auto simp: createOrder_def fail_def)
  note F = createOrder_loop_success [OF L [unfolded res] assms(3)]
  have w': "productsDb w' = pdb1"
    and resp: "data resp = Some (fst (db_add \<lparr>id' = [], createdAt = 0, updatedAt = 0,
                       Order.userId = uid, items = ois, totalAmount = tot,
                       Order.status = Pending, shippingAddress = addr, paymentMethod = pm,
                       paymentStatus = Unpaid, shippedDate = None, deliveredDate = None\<rparr> e1 (ordersDb w)))"
    using assms(1) U L res
    by (auto simp: createOrder_def Let_def ok_def split: prod.splits)
  have stockpart: "\<exists>p'. db_get pid (productsDb w') = Some p' \<and>
                   stock p' = decremented (stock p) (ordered_quantities pid lineItems) \<and>
                   price p' = price p"
    if "db_get pid (productsDb w) = Some p" for pid p
  proof -
    from F have "rel_option (stock_moved (ordered_quantities pid lineItems))
        (db_get pid (productsDb w)) (db_get pid pdb1)" by blast
    with that obtain p' where "db_get pid pdb1 = Some p'"
      and "stock_moved (ordered_quantities pid lineItems) p p'"
      by (auto simp: option_rel_Some1)
    then show ?thesis
      unfolding w' stock_moved_def by (cases p, cases p') auto
  qed
  have caps: "list_all2 (\<lambda>it oi. \<exists>p. db_get (LineItem.productId it) (productsDb w) = Some p \<and>
                 oi = captured p it) its (capture_all (productsDb w) its)"
    if "\<forall>it \<in> set its. db_get (LineItem.productId it) (productsDb w) \<noteq> None" for its
    using that by (induction its) (auto simp: capture_all_def)
  from F have ois: "ois = capture_all (productsDb w) lineItems"
    and tot: "tot = sum_in_order (subtotals ois)"
    and ex: "\<forall>it \<in> set lineItems. db_get (LineItem.productId it) (productsDb w) \<noteq> None"
    by (auto simp: sum_in_order_def)
  show ?thesis
    using stockpart caps [OF ex] resp
    by (auto simp: db_add_eq ois [symmetric] tot captured_def)
qed

text \<open>
  With a stock and quantities that are integers, as the stock of the specification is, the
  stock falls by exactly the sum of the quantities.
\<close>

lemma createOrder_success_integers:
  assumes "createOrder uid lineItems addr pm w = (resp, w')" and "success resp"
    and "keys_are_ids (productsDb w)"
    and "db_get pid (productsDb w) = Some p" and "stock p = Fin (of_int s)" and "s \<le> 2 ^ 53"
    and "ordered_quantities pid lineItems = map (\<lambda>q. Fin (of_int q)) qs"
    and "\<forall>q \<in> set qs. 0 \<le> q" and "sum_list qs \<le> s"
  shows "stock_of pid w' = Some (Fin (of_int (s - sum_list qs)))"
proof -
  from createOrder_success_keys [OF assms(1-3)] assms(4)
  obtain p' where "db_get pid (productsDb w') = Some p'"
    and "stock p' = decremented (stock p) (ordered_quantities pid lineItems)"
    by blast
  then show ?thesis
    by (simp add: stock_of_def assms(5,7) decremented_integers [OF assms(8,9,6)])
qed



subsection \<open>C5: a payment that is not valid\<close>

text \<open>
  C5 says that when the order is absent, belongs to another user, has another total or is
  paid already, \<^verbatim>\<open>processPayment\<close> fails and \<^verbatim>\<open>paymentStatus\<close> remains \<^verbatim>\<open>Unpaid\<close>. In the
  last of the four cases the status is \<^verbatim>\<open>Paid\<close> before the call and after it: the paid
  order of \<open>world_paid\<close> is refused and stays \<^verbatim>\<open>Paid\<close>.
\<close>

theorem processPayment_paid_counterexample:
  "reachable world_paid \<and>
   map_option paymentStatus (db_get order_id (ordersDb world_paid)) = Some Paid \<and>
   success (fst (processPayment order_id alice_id (Fin 40) CreditCard world_paid)) = False \<and>
   map_option paymentStatus
     (db_get order_id (ordersDb (snd (processPayment order_id alice_id (Fin 40) CreditCard world_paid))))
     \<noteq> Some Unpaid"
proof -
  have "map_option paymentStatus (db_get order_id (ordersDb world_paid)) = Some Paid \<and>
   success (fst (processPayment order_id alice_id (Fin 40) CreditCard world_paid)) = False \<and>
   map_option paymentStatus
     (db_get order_id (ordersDb (snd (processPayment order_id alice_id (Fin 40) CreditCard world_paid))))
     \<noteq> Some Unpaid"
    by code_simp
  with world_paid_reachable show ?thesis by simp
qed

text \<open>
  C5 as amended: in each of the four cases the call fails with the message
  \<^verbatim>\<open>Invalid order or order already paid.\<close> and leaves the whole state as it was, so the
  order, when there is one, keeps every field, and \<^verbatim>\<open>paymentStatus\<close> keeps the value it had
  before the call. The total differs from the amount in the sense of \<^verbatim>\<open>!==\<close>.
\<close>

theorem processPayment_invalid_changes_nothing:
  assumes "db_get oid (ordersDb w) = None \<or>
     (\<exists>order. db_get oid (ordersDb w) = Some order \<and>
        (Order.userId order \<noteq> uid \<or> strict_neq (totalAmount order) amt \<or>
         paymentStatus order = Paid))"
  shows "success (fst (processPayment oid uid amt m w)) = False \<and>
     error (fst (processPayment oid uid amt m w)) = Some InvalidOrderOrPaid \<and>
     snd (processPayment oid uid amt m w) = w"
  using assms by (auto simp: processPayment_def fail_def)

text \<open>A payment of 39 for the unpaid order of 40: it fails and the state is unchanged.\<close>

theorem processPayment_invalid_changes_nothing_witness:
  "map_option totalAmount (db_get order_id (ordersDb world_ordered)) = Some (Fin 40) \<and>
   map_option paymentStatus (db_get order_id (ordersDb world_ordered)) = Some Unpaid \<and>
   success (fst (processPayment order_id alice_id (Fin 39) CreditCard world_ordered)) = False \<and>
   snd (processPayment order_id alice_id (Fin 39) CreditCard world_ordered) = world_ordered"
proof -
  have "map_option (\<lambda>x. (totalAmount x, paymentStatus x)) (db_get order_id (ordersDb world_ordered))
     = Some (Fin 40, Unpaid)"
    by code_simp
  then obtain order where o: "db_get order_id (ordersDb world_ordered) = Some order"
    and t: "totalAmount order = Fin 40" and p: "paymentStatus order = Unpaid"
    by auto
  have "db_get order_id (ordersDb world_ordered) = None \<or>
     (\<exists>order. db_get order_id (ordersDb world_ordered) = Some order \<and>
        (Order.userId order \<noteq> alice_id \<or> strict_neq (totalAmount order) (Fin 39) \<or>
         paymentStatus order = Paid))"
    using o t by (simp add: strict_neq_def strict_eq_def)
  from processPayment_invalid_changes_nothing [OF this, of CreditCard] o t p
  show ?thesis by simp
qed

subsection \<open>C6: the rating of a reviewed product\<close>




subsection \<open>C7: registering a username twice\<close>

text \<open>
  In any state that holds a user with the username, \<^verbatim>\<open>registerUser\<close> fails and changes
  nothing.
\<close>

lemma registerUser_existing_username:
  assumes "db_findBy username (username userData) (usersDb w) \<noteq> []"
  shows "registerUser userData w = (fail UsernameExists, w)"
  using assms by (simp add: registerUser_def)

text \<open>
  C7: when \<^verbatim>\<open>registerUser\<close> has succeeded for a username, a second call with the same
  username in the state that the first call has left fails with
  \<^verbatim>\<open>Username already exists.\<close>, changes nothing, and the repository holds exactly one user
  with that username.
\<close>

theorem registerUser_twice:
  assumes "registerUser u1 w = (r1, w1)" and "success r1"
    and "username u2 = username u1"
  shows "registerUser u2 w1 = (fail UsernameExists, w1) \<and>
     length (db_findBy username (username u1) (usersDb w1)) = 1"
proof -
  let ?n = "username u1"
  from assms(1,2) have none: "db_findBy username ?n (usersDb w) = []"
    by (auto simp: registerUser_def fail_def split: if_splits)
  define e1 where "e1 = snd (Date_now (env w))"
  define h where "h = ''hashed_'' @ (case passwordHash u1 of Some p \<Rightarrow> p | None \<Rightarrow> ''undefined'')
      @ ''_'' @ show_nat (clock (env w) (ticks (env w)))"
  define newUser where "newUser = fst (db_add (u1\<lparr>passwordHash := Some h\<rparr>) e1 (usersDb w))"
  have w1: "usersDb w1 = AList.update (new_id e1) newUser (usersDb w)"
    using assms(1) none
    by (auto simp: registerUser_def Date_now_def Let_def db_add_eq e1_def h_def newUser_def
        split: prod.splits)
  have "username newUser = ?n"
    by (simp add: newUser_def db_add_eq)
  with none have one: "db_findBy username ?n (usersDb w1) = [newUser]"
    unfolding db_findBy_def w1 by (intro filter_update_fresh) simp_all
  then have "registerUser u2 w1 = (fail UsernameExists, w1)"
    by (simp add: registerUser_def assms(3))
  with one show ?thesis by simp
qed

theorem registerUser_twice_witness:
  "success (fst (registerUser alice world0)) \<and>
   registerUser alice world_user = (fail UsernameExists, world_user) \<and>
   length (db_findBy username ''alice'' (usersDb world_user)) = 1"
proof -
  have run: "registerUser alice world0 = (fst (registerUser alice world0), world_user)"
    by (simp add: world_user_def)
  have s: "success (fst (registerUser alice world0))" by code_simp
  have n: "username alice = ''alice''" by (simp add: alice_def)
  from registerUser_twice [OF run s refl] s n show ?thesis by simp
qed

subsection \<open>C8: profiles carry no password hash\<close>

text \<open>
  C8: for the id of a stored user, \<^verbatim>\<open>getUserProfile\<close> and \<^verbatim>\<open>updateUserProfile\<close> succeed
  and the user they return has no \<^verbatim>\<open>passwordHash\<close>; it is the stored user in every other
  field. The stored user keeps the hash.
\<close>

theorem profile_without_passwordHash:
  assumes "db_get uid (usersDb w) = Some u"
  shows "(\<exists>d. fst (getUserProfile uid w) = ok d \<and> passwordHash d = None \<and>
            d = u\<lparr>passwordHash := None\<rparr>) \<and>
         (\<exists>d stored. fst (updateUserProfile uid updates w) = ok d \<and> passwordHash d = None \<and>
            db_get uid (usersDb (snd (updateUserProfile uid updates w))) = Some stored \<and>
            passwordHash stored = passwordHash u \<and> d = stored\<lparr>passwordHash := None\<rparr>)"
  using assms
  by (simp add: getUserProfile_def updateUserProfile_def db_update_Some db_get_update
      spread_UserUpdates_def)

theorem profile_without_passwordHash_witness:
  "map_option passwordHash (db_get alice_id (usersDb world_user)) = Some (Some ''hashed_secret_1000'') \<and>
   success (fst (getUserProfile alice_id world_user)) \<and>
   map_option passwordHash (data (fst (getUserProfile alice_id world_user))) = Some None \<and>
   map_option passwordHash (data (fst (updateUserProfile alice_id new_email world_user))) = Some None"
proof -
  have h: "map_option passwordHash (db_get alice_id (usersDb world_user)) = Some (Some ''hashed_secret_1000'')"
    by code_simp
  then obtain u where u: "db_get alice_id (usersDb world_user) = Some u" by auto
  from profile_without_passwordHash [OF u, of new_email] h show ?thesis
    by (auto simp: ok_def)
qed

subsection \<open>C9: the ids that add issues\<close>

text \<open>
  C9 says that two calls of \<^verbatim>\<open>add\<close> on a repository never return the same id. The id is
  made of the clock reading and of seven characters of a random number, and \<^verbatim>\<open>add\<close> does
  not look it up in the collection: two calls within one millisecond that draw the same
  random number return the same id, and the second record replaces the first one.
\<close>

theorem db_add_same_id_counterexample:
  "id' (fst first_add) = id' (fst second_add) \<and>
   map fst (snd (snd second_add)) = [''entity_1000_i''] \<and>
   map (\<lambda>(k, p). name p) (snd (snd second_add)) = [''TypeScript Deep Dive'']"
  by code_simp

text \<open>
  C9 as amended: two calls of \<^verbatim>\<open>add\<close> return the same id exactly when they read the same
  clock value and the characters 2 to 8 of their random numbers in base 36 are the same;
  in every other case the ids are distinct.
\<close>

theorem db_add_same_id_iff:
  "id' (fst (db_add a e db)) = id' (fst (db_add b e2 db2)) \<longleftrightarrow>
     clock e (ticks e) = clock e2 (ticks e2) \<and>
     substring 2 9 (base36 (rng e (draws e))) = substring 2 9 (base36 (rng e2 (draws e2)))"
  by (simp add: db_add_eq new_id_eq_iff)

text \<open>Two calls one after the other on a clock that has advanced: the ids are distinct.\<close>

theorem db_add_same_id_iff_witness:
  "id' (fst (db_add headphones env0 [])) \<noteq>
   id' (fst (db_add book (fst (snd (db_add headphones env0 []))) (snd (snd (db_add headphones env0 [])))))"
  using db_add_same_id_iff [of headphones env0 "[]" book "fst (snd (db_add headphones env0 []))"
      "snd (snd (db_add headphones env0 []))"]
  by (simp add: db_add_eq after_add_def env0_def)

subsection \<open>C10: a payment that the gateway refuses\<close>

text \<open>
  C10: when the order exists, the user and the amount match, the order is not paid, and
  the random number of the gateway is not above \<^verbatim>\<open>0.1\<close>, \<^verbatim>\<open>processPayment\<close> returns a
  failure that carries a transaction with the status \<^verbatim>\<open>Failed\<close> and the data of the call,
  the transaction is stored in the payments repository, and the orders repository is
  unchanged: the order keeps every field, and its \<^verbatim>\<open>paymentStatus\<close> is \<^verbatim>\<open>Unpaid\<close>. The
  amount matches in the sense of \<^verbatim>\<open>===\<close>.
\<close>

theorem processPayment_gateway_failure:
  assumes "db_get oid (ordersDb w) = Some order"
    and "Order.userId order = uid" and "strict_eq (totalAmount order) amt"
    and "paymentStatus order \<noteq> Paid"
    and "\<not> num_gt (rvalue (rng (env w) (Suc (draws (env w))))) (round64 (1 / 10))"
    and "processPayment oid uid amt m w = (resp, w')"
  shows "success resp = False \<and> error resp = Some PaymentFailed \<and>
     (\<exists>txn. data resp = Some txn \<and> PaymentTransaction.status txn = Failed \<and>
        orderId txn = oid \<and> PaymentTransaction.userId txn = uid \<and> amount txn = amt \<and>
        method txn = m \<and> db_get (id' txn) (paymentsDb w') = Some txn) \<and>
     ordersDb w' = ordersDb w \<and> db_get oid (ordersDb w') = Some order \<and>
     paymentStatus order = Unpaid \<and>
     usersDb w' = usersDb w \<and> productsDb w' = productsDb w \<and> reviewsDb w' = reviewsDb w"
proof -
  have unpaid: "paymentStatus order = Unpaid"
    using assms(4) by (cases "paymentStatus order") auto
  have same: "\<not> strict_neq (totalAmount order) amt"
    using assms(3) by (simp add: strict_neq_def)
  from assms(6) [symmetric] assms(1,2,5) same show ?thesis
    by (simp add: processPayment_def Date_now_def Math_random_def Let_def db_add_eq
        db_get_update unpaid)
qed

theorem processPayment_gateway_failure_witness:
  "reachable world_unlucky \<and>
   map_option (\<lambda>x. (Order.userId x, totalAmount x, paymentStatus x))
      (db_get order_id (ordersDb world_unlucky)) = Some (alice_id, Fin 40, Unpaid) \<and>
   \<not> num_gt (rvalue (rng (env world_unlucky) (Suc (draws (env world_unlucky))))) (round64 (1 / 10)) \<and>
   success (fst (processPayment order_id alice_id (Fin 40) CreditCard world_unlucky)) = False \<and>
   map_option PaymentTransaction.status
      (data (fst (processPayment order_id alice_id (Fin 40) CreditCard world_unlucky))) = Some Failed \<and>
   ordersDb (snd (processPayment order_id alice_id (Fin 40) CreditCard world_unlucky))
     = ordersDb world_unlucky"
proof -
  let ?r = "processPayment order_id alice_id (Fin 40) CreditCard world_unlucky"
  have v: "map_option (\<lambda>x. (Order.userId x, totalAmount x, paymentStatus x))
      (db_get order_id (ordersDb world_unlucky)) = Some (alice_id, Fin 40, Unpaid)"
    by code_simp
  then obtain order where o: "db_get order_id (ordersDb world_unlucky) = Some order"
    and u: "Order.userId order = alice_id" and t: "strict_eq (totalAmount order) (Fin 40)"
    and p: "paymentStatus order \<noteq> Paid"
    by (auto simp: strict_eq_def)
  have g: "\<not> num_gt (rvalue (rng (env world_unlucky) (Suc (draws (env world_unlucky)))))
      (round64 (1 / 10))"
    by code_simp
  have run: "?r = (fst ?r, snd ?r)" by simp
  from processPayment_gateway_failure [OF o u t p g run] v g world_unlucky_reachable
  show ?thesis by auto
qed

end
